theory Spec2Isabelle
  imports Main
begin

section \<open>The room model (Room class, in-memory registries)\<close>

text \<open>
  Connection handles are the ids the socket library hands out (\<open>socket.id\<close>): opaque,
  non-empty strings, so every handle is truthy in the source's \<open>if (id)\<close> tests. They
  are modelled as an opaque type. User e-mails, room codes and message bodies are
  caller-supplied strings (ASCII text); times are milliseconds (\<open>Date.now()\<close>,
  \<open>new Date()\<close>).
\<close>

datatype socket_id = Sid nat

datatype error = Error string

text \<open>The value stored in the global \<open>participants\<close> Map by \<open>addParticipant\<close>.\<close>

record participant =
  p_userEmail :: string
  p_roomCode :: string
  p_joinedAt :: nat

text \<open>
  The object built by \<open>addMessage\<close>. Its id is \<open>Date.now() + Math.random()\<close>; the
  two summands are kept as a pair, the random draw being an input of the model.
\<close>

record message_obj =
  m_id :: "nat \<times> nat"
  m_message :: string
  m_senderEmail :: string
  m_timestamp :: nat

text \<open>
  A \<open>Room\<close> object. \<open>participants\<close> is a JavaScript \<open>Set\<close>: it iterates in insertion
  order and holds no element twice, so it is a list that \<open>set_add\<close> and \<open>set_delete\<close>
  maintain; \<open>size\<close> is its length.
\<close>

record room =
  room_id :: string
  code :: string
  participants :: "socket_id list"
  createdAt :: nat
  messages :: "message_obj list"
  isActive :: bool
  maxParticipants :: nat

type_synonym participants_map = "socket_id \<rightharpoonup> participant"

definition set_add :: "'a \<Rightarrow> 'a list \<Rightarrow> 'a list" where
  "set_add x xs = (if x \<in> set xs then xs else xs @ [x])"

definition set_delete :: "'a \<Rightarrow> 'a list \<Rightarrow> 'a list" where
  "set_delete x xs = filter (\<lambda>y. y \<noteq> x) xs"

text \<open>\<open>String.prototype.toUpperCase\<close> on ASCII text: a..z become A..Z.\<close>

definition upper_char :: "char \<Rightarrow> char" where
  "upper_char c =
     (let n = (of_char c :: nat)
      in if 97 \<le> n \<and> n \<le> 122 then char_of (n - 32) else c)"

definition toUpperCase :: "string \<Rightarrow> string" where
  "toUpperCase s = map upper_char s"

text \<open>\<open>Array.prototype.slice(-n)\<close>: the last \<open>n\<close> elements (all of them when fewer).\<close>

definition slice_last :: "nat \<Rightarrow> 'a list \<Rightarrow> 'a list" where
  "slice_last n xs = drop (length xs - n) xs"

text \<open>The constructor; \<open>now\<close> is the value of \<open>new Date()\<close>.\<close>

definition Room :: "string \<Rightarrow> nat \<Rightarrow> room" where
  "Room c now =
     \<lparr> room_id = c, code = toUpperCase c, participants = [], createdAt = now,
       messages = [], isActive = True, maxParticipants = 50 \<rparr>"

text \<open>
  The methods take the object (\<open>this\<close>) and the global \<open>participants\<close> Map and return the
  result together with both, updated. A \<open>throw\<close> is the result \<open>Inl\<close>; the state that
  comes with it is the state at the moment of the throw.
\<close>

definition addParticipant ::
  "socket_id \<Rightarrow> string \<Rightarrow> nat \<Rightarrow> room \<Rightarrow> participants_map
     \<Rightarrow> (error + bool) \<times> room \<times> participants_map" where
  "addParticipant socketId userEmail now this ps =
     (if length (participants this) \<ge> maxParticipants this
      then (Inl (Error ''Room is full''), this, ps)
      else (Inr True,
            this\<lparr>participants := set_add socketId (participants this)\<rparr>,
            ps(socketId \<mapsto>
                 \<lparr> p_userEmail = userEmail, p_roomCode = code this, p_joinedAt = now \<rparr>)))"

definition removeParticipant ::
  "socket_id \<Rightarrow> room \<Rightarrow> participants_map \<Rightarrow> nat \<times> room \<times> participants_map" where
  "removeParticipant socketId this ps =
     (let this1 = this\<lparr>participants := set_delete socketId (participants this)\<rparr>;
          ps1 = ps(socketId := None);
          this2 = (if length (participants this1) = 0
                   then this1\<lparr>isActive := False\<rparr> else this1)
      in (length (participants this2), this2, ps1))"

definition addMessage ::
  "string \<Rightarrow> string \<Rightarrow> nat \<Rightarrow> nat \<Rightarrow> room \<Rightarrow> message_obj \<times> room" where
  "addMessage message senderEmail now rnd this =
     (let messageObj = \<lparr> m_id = (now, rnd), m_message = message,
                          m_senderEmail = senderEmail, m_timestamp = now \<rparr>;
          pushed = messages this @ [messageObj]
      in (messageObj,
          this\<lparr>messages := (if length pushed > 100 then slice_last 100 pushed
                             else pushed)\<rparr>))"

text \<open>A sequence of method calls on one room; a caller that catches a throw goes on.\<close>

datatype room_op =
    OpAdd socket_id string nat
  | OpRemove socket_id
  | OpMessage string string nat nat

fun apply_room_op :: "room_op \<Rightarrow> room \<times> participants_map \<Rightarrow> room \<times> participants_map" where
  "apply_room_op (OpAdd sid email now) (r, ps) = snd (addParticipant sid email now r ps)"
| "apply_room_op (OpRemove sid) (r, ps) = snd (removeParticipant sid r ps)"
| "apply_room_op (OpMessage body sender now rnd) (r, ps) =
     (snd (addMessage body sender now rnd r), ps)"


definition run_room_ops ::
  "room_op list \<Rightarrow> room \<times> participants_map \<Rightarrow> room \<times> participants_map" where
  "run_room_ops ops st = foldl (\<lambda>s op. apply_room_op op s) st ops"

section \<open>The server state (server.js)\<close>

text \<open>
  Room objects live in a store and are referred to by address: the \<open>rooms\<close> Map holds
  references, and the closure of the disconnect timer keeps the reference it looked up
  when the socket disconnected, whatever happens to the registry afterwards. The store
  is total; \<open>next_ref\<close> is the first address not yet given out by \<open>new Room\<close>.

  The server record holds the module-level Maps of the source (\<open>rooms\<close>,
  \<open>participants\<close> as \<open>all_participants\<close>, \<open>socketToUser\<close>, \<open>userToSocket\<close>,
  \<open>userLastActivity\<close>), what the socket library keeps (the connected sockets of
  \<open>io.sockets.sockets\<close>, the subscriptions made by \<open>socket.join\<close>), the pending
  \<open>setTimeout\<close> callbacks with their due times, the events emitted so far, and the
  clock. A handler runs to completion and reads one clock value.
\<close>

type_synonym ref = nat

text \<open>
  What the server hands to the socket library. A channel is a broadcast group: a room
  name given to \<open>socket.join\<close>, or the private group every socket has under its own id.
  \<open>Emit s\<close> is \<open>socket.emit\<close> on socket \<open>s\<close>; \<open>SocketTo s ch\<close> is
  \<open>socket.to(ch).emit\<close> (every subscriber of \<open>ch\<close> but \<open>s\<close>); \<open>IoTo ch\<close> is
  \<open>io.to(ch).emit\<close>.
\<close>

datatype channel = RoomChannel string | SocketChannel socket_id

datatype target = Emit socket_id | SocketTo socket_id channel | IoTo channel

record private_message_obj =
  pm_id :: "nat \<times> nat"
  pm_message :: string
  pm_senderEmail :: string
  pm_recipientEmail :: string
  pm_timestamp :: nat
  pm_type :: string

datatype signal_kind = Offer | Answer | IceCandidate

datatype payload =
    RoomParticipantsEv "(socket_id \<times> string) list"
  | UserJoinedEv socket_id string
  | ParticipantsUpdateEv nat "(socket_id \<times> string) list"
  | UserLeftEv socket_id string
  | ErrorEv string
  | PongEv
  | SignalEv signal_kind string socket_id "string option"
  | ChatMessageEv message_obj
  | PrivateMessageEv private_message_obj
  | UserMediaStateChangedEv socket_id string string bool
  | UserScreenShareStartedEv socket_id string
  | UserScreenShareStoppedEv socket_id string
  | UserRecordingStartedEv socket_id string string
  | UserRecordingStoppedEv socket_id string string string

text \<open>
  The three callbacks given to \<open>setTimeout\<close>, with the variables their closures
  capture: the delayed roster for the joiner, the delayed "user-joined" notice, and the
  removal check that runs five seconds after a disconnect (socket id, room code, user
  e-mail and the Room object of the disconnect handler).
\<close>

datatype timer_action =
    SendRoomParticipants socket_id "(socket_id \<times> string) list"
  | NotifyUserJoined socket_id string string
  | GraceRemoval socket_id string string ref

record server =
  rooms :: "string \<rightharpoonup> ref"
  heap :: "ref \<Rightarrow> room"
  next_ref :: ref
  all_participants :: participants_map
  socketToUser :: "socket_id \<rightharpoonup> string \<times> string"
  userToSocket :: "string \<rightharpoonup> socket_id"
  userLastActivity :: "string \<rightharpoonup> nat"
  sockets :: "socket_id list"
  joined :: "(socket_id \<times> string) list"
  timers :: "(nat \<times> timer_action) list"
  outbox :: "(target \<times> payload) list"
  date_now :: nat

definition init_server :: server where
  "init_server =
     \<lparr> rooms = Map.empty, heap = (\<lambda>r. Room [] 0), next_ref = 0,
       all_participants = Map.empty, socketToUser = Map.empty, userToSocket = Map.empty,
       userLastActivity = Map.empty, sockets = [], joined = [], timers = [], outbox = [],
       date_now = 0 \<rparr>"

definition emit :: "target \<Rightarrow> payload \<Rightarrow> server \<Rightarrow> server" where
  "emit t p st = st\<lparr>outbox := outbox st @ [(t, p)]\<rparr>"

definition setTimeout :: "timer_action \<Rightarrow> nat \<Rightarrow> server \<Rightarrow> server" where
  "setTimeout a delay st = st\<lparr>timers := timers st @ [(date_now st + delay, a)]\<rparr>"

subsection \<open>roomUtils\<close>

definition createRoom :: "string \<Rightarrow> server \<Rightarrow> ref \<times> server" where
  "createRoom c st =
     (let upperCode = toUpperCase c
      in case rooms st upperCode of
           Some r \<Rightarrow> (r, st)
         | None \<Rightarrow>
             (let r = next_ref st
              in (r, st\<lparr>heap := (heap st)(r := Room upperCode (date_now st)),
                        rooms := (rooms st)(upperCode \<mapsto> r),
                        next_ref := Suc r\<rparr>)))"

definition getRoom :: "string \<Rightarrow> server \<Rightarrow> ref option" where
  "getRoom c st = rooms st (toUpperCase c)"

definition roomExists :: "string \<Rightarrow> server \<Rightarrow> bool" where
  "roomExists c st = (rooms st (toUpperCase c) \<noteq> None)"

text \<open>
  \<open>cleanupEmptyRooms\<close> visits every entry of the Map and deletes the ones whose room
  is empty and inactive; the test on one entry does not depend on the others.
\<close>

definition cleanupEmptyRooms :: "server \<Rightarrow> server" where
  "cleanupEmptyRooms st =
     st\<lparr>rooms := (\<lambda>c. case rooms st c of
                         None \<Rightarrow> None
                       | Some r \<Rightarrow>
                           if length (participants (heap st r)) = 0
                              \<and> \<not> isActive (heap st r)
                           then None else Some r)\<rparr>"

text \<open>The coordinator's "get or create": \<open>getRoom\<close>, then \<open>createRoom\<close> when absent.\<close>

definition get_or_create :: "string \<Rightarrow> server \<Rightarrow> ref \<times> server" where
  "get_or_create c st =
     (case getRoom c st of Some room \<Rightarrow> (room, st) | None \<Rightarrow> createRoom c st)"

subsection \<open>Room methods on the object behind a reference\<close>

definition room_addParticipant ::
  "ref \<Rightarrow> socket_id \<Rightarrow> string \<Rightarrow> server \<Rightarrow> (error + bool) \<times> server" where
  "room_addParticipant r sid email st =
     (case addParticipant sid email (date_now st) (heap st r) (all_participants st) of
        (res, this', ps') \<Rightarrow>
          (res, st\<lparr>heap := (heap st)(r := this'), all_participants := ps'\<rparr>))"

definition room_removeParticipant :: "ref \<Rightarrow> socket_id \<Rightarrow> server \<Rightarrow> nat \<times> server" where
  "room_removeParticipant r sid st =
     (case removeParticipant sid (heap st r) (all_participants st) of
        (n, this', ps') \<Rightarrow>
          (n, st\<lparr>heap := (heap st)(r := this'), all_participants := ps'\<rparr>))"

definition room_addMessage ::
  "ref \<Rightarrow> string \<Rightarrow> string \<Rightarrow> nat \<Rightarrow> server \<Rightarrow> message_obj \<times> server" where
  "room_addMessage r body sender rnd st =
     (case addMessage body sender (date_now st) rnd (heap st r) of
        (m, this') \<Rightarrow> (m, st\<lparr>heap := (heap st)(r := this')\<rparr>))"

text \<open>\<open>participant?.userEmail || "Unknown"\<close> and the roster built from a room's Set.\<close>

definition display_email :: "participants_map \<Rightarrow> socket_id \<Rightarrow> string" where
  "display_email ps i =
     (case ps i of
        None \<Rightarrow> ''Unknown''
      | Some p \<Rightarrow> if p_userEmail p = [] then ''Unknown'' else p_userEmail p)"

definition roster :: "ref \<Rightarrow> server \<Rightarrow> (socket_id \<times> string) list" where
  "roster r st =
     map (\<lambda>i. (i, display_email (all_participants st) i)) (participants (heap st r))"

subsection \<open>Socket event handlers\<close>

definition updateUserActivity :: "string \<Rightarrow> server \<Rightarrow> server" where
  "updateUserActivity userEmail st =
     (if userEmail \<noteq> []
      then st\<lparr>userLastActivity := (userLastActivity st)(userEmail \<mapsto> date_now st)\<rparr>
      else st)"

text \<open>
  The \<open>disconnect\<close> handler: when the socket is bound and its room is registered, it
  schedules the removal check five seconds ahead; nothing is removed now.
\<close>

definition on_disconnect :: "socket_id \<Rightarrow> server \<Rightarrow> server" where
  "on_disconnect sock st =
     (case socketToUser st sock of
        None \<Rightarrow> st
      | Some (userEmail, roomCode) \<Rightarrow>
          (case getRoom roomCode st of
             None \<Rightarrow> st
           | Some room \<Rightarrow> setTimeout (GraceRemoval sock roomCode userEmail room) 5000 st))"

text \<open>
  What the socket library does when a connection ends, by the transport or by
  \<open>socket.disconnect(true)\<close>: the socket leaves \<open>io.sockets.sockets\<close> and all its
  groups, and its \<open>disconnect\<close> handler runs at once.
\<close>

definition close_socket :: "socket_id \<Rightarrow> server \<Rightarrow> server" where
  "close_socket s st =
     (if s \<in> set (sockets st)
      then on_disconnect s
             (st\<lparr>sockets := set_delete s (sockets st),
                 joined := filter (\<lambda>(x, c). x \<noteq> s) (joined st)\<rparr>)
      else st)"

text \<open>The removal check of the disconnect handler, run when its timer fires.\<close>

definition grace_removal :: "socket_id \<Rightarrow> string \<Rightarrow> string \<Rightarrow> ref \<Rightarrow> server \<Rightarrow> server" where
  "grace_removal sock roomCode userEmail room st =
     (if userToSocket st userEmail = Some sock
      then (case room_removeParticipant room sock st of
              (remainingCount, st1) \<Rightarrow>
                (let st2 = emit (SocketTo sock (RoomChannel roomCode))
                             (UserLeftEv sock userEmail) st1;
                     st3 = emit (IoTo (RoomChannel roomCode))
                             (ParticipantsUpdateEv remainingCount (roster room st2)) st2
                 in st3\<lparr>socketToUser := (socketToUser st3)(sock := None),
                        userToSocket := (userToSocket st3)(userEmail := None),
                        userLastActivity := (userLastActivity st3)(userEmail := None)\<rparr>))
      else st)"

text \<open>
  \<open>join-room\<close>, first part ("clean up any existing session"): when the e-mail is bound
  to another socket, that socket is disconnected if it is still live and its two
  mapping entries are deleted.
\<close>

definition cleanup_existing_session :: "socket_id \<Rightarrow> string \<Rightarrow> server \<Rightarrow> server" where
  "cleanup_existing_session sock userEmail st =
     (case userToSocket st userEmail of
        None \<Rightarrow> st
      | Some existingSocketId \<Rightarrow>
          if existingSocketId \<noteq> sock
          then (let st1 = (if existingSocketId \<in> set (sockets st)
                           then close_socket existingSocketId st else st)
                in st1\<lparr>socketToUser := (socketToUser st1)(existingSocketId := None),
                       userToSocket := (userToSocket st1)(userEmail := None)\<rparr>)
          else st)"

text \<open>
  \<open>join-room\<close>, second part: subscribe, install the binding, get or create the room,
  add the participant, schedule the two delayed events and broadcast the roster. A
  throw of \<open>addParticipant\<close> is caught and reported to the socket; what was done
  before it stays done.
\<close>

definition join_after_cleanup :: "socket_id \<Rightarrow> string \<Rightarrow> string \<Rightarrow> server \<Rightarrow> server" where
  "join_after_cleanup sock roomCode userEmail st =
     (let st1 = st\<lparr>joined := set_add (sock, roomCode) (joined st)\<rparr>;
          st2 = st1\<lparr>socketToUser := (socketToUser st1)(sock \<mapsto> (userEmail, roomCode)),
                    userToSocket := (userToSocket st1)(userEmail \<mapsto> sock)\<rparr>;
          st3 = updateUserActivity userEmail st2
      in case get_or_create roomCode st3 of
           (room, st4) \<Rightarrow>
             (case room_addParticipant room sock userEmail st4 of
                (Inl (Error msg), st5) \<Rightarrow> emit (Emit sock) (ErrorEv msg) st5
              | (Inr ok, st5) \<Rightarrow>
                  (let roomParticipants = filter (\<lambda>(i, e). i \<noteq> sock) (roster room st5);
                       st6 = setTimeout (SendRoomParticipants sock roomParticipants) 1000 st5;
                       st7 = setTimeout (NotifyUserJoined sock roomCode userEmail) 1500 st6
                   in emit (IoTo (RoomChannel roomCode))
                        (ParticipantsUpdateEv (length (participants (heap st7 room)))
                           (roster room st7)) st7)))"

definition join_room :: "socket_id \<Rightarrow> string \<Rightarrow> string \<Rightarrow> server \<Rightarrow> server" where
  "join_room sock roomCode userEmail st =
     join_after_cleanup sock roomCode userEmail (cleanup_existing_session sock userEmail st)"

definition ping :: "socket_id \<Rightarrow> string \<Rightarrow> server \<Rightarrow> server" where
  "ping sock userEmail st = emit (Emit sock) PongEv (updateUserActivity userEmail st)"

text \<open>\<open>offer\<close>, \<open>answer\<close> and \<open>ice-candidate\<close>: the payload goes to the group \<open>to\<close>.\<close>

definition signal :: "socket_id \<Rightarrow> signal_kind \<Rightarrow> string \<Rightarrow> channel \<Rightarrow> server \<Rightarrow> server" where
  "signal sock k body to st =
     emit (SocketTo sock to)
       (SignalEv k body sock (map_option fst (socketToUser st sock))) st"

definition chat_message ::
  "socket_id \<Rightarrow> string \<Rightarrow> string \<Rightarrow> string \<Rightarrow> nat \<Rightarrow> server \<Rightarrow> server" where
  "chat_message sock body senderEmail roomCode rnd st =
     (case getRoom roomCode st of
        None \<Rightarrow> st
      | Some room \<Rightarrow>
          (case room_addMessage room body senderEmail rnd st of
             (messageObj, st1) \<Rightarrow>
               emit (IoTo (RoomChannel roomCode)) (ChatMessageEv messageObj) st1))"

definition private_message ::
  "socket_id \<Rightarrow> string \<Rightarrow> string \<Rightarrow> string \<Rightarrow> string \<Rightarrow> nat \<Rightarrow> server \<Rightarrow> server" where
  "private_message sock body senderEmail recipientEmail roomCode rnd st =
     (case userToSocket st recipientEmail of
        Some recipientSocketId \<Rightarrow>
          (let messageObj =
                 \<lparr> pm_id = (date_now st, rnd), pm_message = body,
                   pm_senderEmail = senderEmail, pm_recipientEmail = recipientEmail,
                   pm_timestamp = date_now st, pm_type = ''private'' \<rparr>;
               st1 = emit (SocketTo sock (SocketChannel recipientSocketId))
                       (PrivateMessageEv messageObj) st
           in emit (Emit sock) (PrivateMessageEv messageObj) st1)
      | None \<Rightarrow> emit (Emit sock) (ErrorEv ''Recipient not found'') st)"

text \<open>
  The presence events (\<open>media-state-change\<close>, \<open>screen-share-start\<close>,
  \<open>screen-share-stop\<close>, \<open>recording-started\<close>, \<open>recording-stopped\<close>) share one shape:
  when the socket is bound, a notice built from the bound e-mail goes to the others in
  the named room.
\<close>

definition presence ::
  "socket_id \<Rightarrow> string \<Rightarrow> (socket_id \<Rightarrow> string \<Rightarrow> payload) \<Rightarrow> server \<Rightarrow> server" where
  "presence sock roomCode notice st =
     (case socketToUser st sock of
        None \<Rightarrow> st
      | Some (userEmail, rc) \<Rightarrow>
          emit (SocketTo sock (RoomChannel roomCode)) (notice sock userEmail) st)"

text \<open>The route \<open>GET /join/:email/:code\<close>, once its middleware has let the request pass.\<close>

definition http_join :: "string \<Rightarrow> string \<Rightarrow> server \<Rightarrow> server" where
  "http_join email c st = snd (get_or_create (toUpperCase c) st)"

subsection \<open>The event loop\<close>

fun fire :: "timer_action \<Rightarrow> server \<Rightarrow> server" where
  "fire (SendRoomParticipants sock roomParticipants) st =
     emit (Emit sock) (RoomParticipantsEv roomParticipants) st"
| "fire (NotifyUserJoined sock roomCode userEmail) st =
     emit (SocketTo sock (RoomChannel roomCode)) (UserJoinedEv sock userEmail) st"
| "fire (GraceRemoval sock roomCode userEmail room) st =
     grace_removal sock roomCode userEmail room st"

text \<open>
  Time passes to \<open>t\<close>: the timers due by then fire in the order of their due times
  (those due together in the order they were set). No callback sets a timer, so the
  due ones can be taken off the list beforehand.
\<close>

definition advance :: "nat \<Rightarrow> server \<Rightarrow> server" where
  "advance t st =
     (let t' = max (date_now st) t;
          due = sort_key fst (filter (\<lambda>tm. fst tm \<le> t') (timers st));
          st1 = st\<lparr>timers := filter (\<lambda>tm. \<not> fst tm \<le> t') (timers st),
                    date_now := t'\<rparr>
      in foldl (\<lambda>s tm. fire (snd tm) s) st1 due)"

datatype event =
    Connect socket_id
  | JoinRoom socket_id string string
  | Ping socket_id string
  | Signal socket_id signal_kind string channel
  | ChatMessage socket_id string string string nat
  | PrivateMessage socket_id string string string string nat
  | MediaStateChange socket_id string bool string
  | ScreenShareStart socket_id string
  | ScreenShareStop socket_id string
  | RecordingStarted socket_id string string
  | RecordingStopped socket_id string string string
  | Disconnect socket_id
  | HttpJoin string string
  | CleanupInterval

text \<open>
  The socket of an event, when it has one. The library runs a socket's handlers only
  while that socket is connected.
\<close>

fun socket_of :: "event \<Rightarrow> socket_id option" where
  "socket_of (Connect s) = None"
| "socket_of (JoinRoom s rc u) = Some s"
| "socket_of (Ping s u) = Some s"
| "socket_of (Signal s k b to) = Some s"
| "socket_of (ChatMessage s b u rc rnd) = Some s"
| "socket_of (PrivateMessage s b u v rc rnd) = Some s"
| "socket_of (MediaStateChange s ty en rc) = Some s"
| "socket_of (ScreenShareStart s rc) = Some s"
| "socket_of (ScreenShareStop s rc) = Some s"
| "socket_of (RecordingStarted s rc ty) = Some s"
| "socket_of (RecordingStopped s rc f ty) = Some s"
| "socket_of (Disconnect s) = Some s"
| "socket_of (HttpJoin e c) = None"
| "socket_of CleanupInterval = None"

fun handler :: "event \<Rightarrow> server \<Rightarrow> server" where
  "handler (Connect s) st =
     (if s \<in> set (sockets st) then st else st\<lparr>sockets := sockets st @ [s]\<rparr>)"
| "handler (JoinRoom s rc u) st = join_room s rc u st"
| "handler (Ping s u) st = ping s u st"
| "handler (Signal s k b to) st = signal s k b to st"
| "handler (ChatMessage s b u rc rnd) st = chat_message s b u rc rnd st"
| "handler (PrivateMessage s b u v rc rnd) st = private_message s b u v rc rnd st"
| "handler (MediaStateChange s ty en rc) st =
     presence s rc (\<lambda>i e. UserMediaStateChangedEv i e ty en) st"
| "handler (ScreenShareStart s rc) st = presence s rc UserScreenShareStartedEv st"
| "handler (ScreenShareStop s rc) st = presence s rc UserScreenShareStoppedEv st"
| "handler (RecordingStarted s rc ty) st =
     presence s rc (\<lambda>i e. UserRecordingStartedEv i e ty) st"
| "handler (RecordingStopped s rc f ty) st =
     presence s rc (\<lambda>i e. UserRecordingStoppedEv i e f ty) st"
| "handler (Disconnect s) st = close_socket s st"
| "handler (HttpJoin e c) st = http_join e c st"
| "handler CleanupInterval st = cleanupEmptyRooms st"

definition handle :: "event \<Rightarrow> server \<Rightarrow> server" where
  "handle e st =
     (case socket_of e of
        None \<Rightarrow> handler e st
      | Some s \<Rightarrow> if s \<in> set (sockets st) then handler e st else st)"

text \<open>An event arrives at time \<open>t\<close>: the timers due by then have fired before it.\<close>

definition deliver :: "nat \<times> event \<Rightarrow> server \<Rightarrow> server" where
  "deliver te st = handle (snd te) (advance (fst te) st)"

definition run :: "(nat \<times> event) list \<Rightarrow> server \<Rightarrow> server" where
  "run es st = foldl (\<lambda>s te. deliver te s) st es"

subsection \<open>Predicates on server states\<close>

text \<open>
  \<open>bound_to st u s\<close>: connection \<open>s\<close> is bound to identity \<open>u\<close> in one of the two
  mappings. \<open>bindings_agree\<close>: every \<open>socketToUser\<close> entry has its \<open>userToSocket\<close>
  counterpart.
\<close>

definition bound_to :: "server \<Rightarrow> string \<Rightarrow> socket_id \<Rightarrow> bool" where
  "bound_to st u s \<longleftrightarrow>
     userToSocket st u = Some s \<or> map_option fst (socketToUser st s) = Some u"

definition bindings_agree :: "server \<Rightarrow> bool" where
  "bindings_agree st \<longleftrightarrow>
     (\<forall>s u rc. socketToUser st s = Some (u, rc) \<longrightarrow> userToSocket st u = Some s)"

text \<open>
  \<open>registry_ok\<close>: every registered reference and every reference kept by a pending
  removal check has been allocated, and a registered room carries its key as its code,
  the key being upper case.
\<close>

definition registry_ok :: "server \<Rightarrow> bool" where
  "registry_ok st \<longleftrightarrow>
     (\<forall>c r. rooms st c = Some r \<longrightarrow>
        r < next_ref st \<and> code (heap st r) = c \<and> toUpperCase c = c)
     \<and> (\<forall>d s rc u r. (d, GraceRemoval s rc u r) \<in> set (timers st) \<longrightarrow> r < next_ref st)"



subsection \<open>A session with a reconnect\<close>

text \<open>
  The states of one run, written out: \<open>a@x.com\<close> connects as socket 1 and joins room
  ABC123 at time 0; the connection drops at 10000; the user comes back as socket 2 and
  joins again at 12000, inside the five seconds; by 20000 all timers have fired.
\<close>

definition reconnect_trace :: "(nat \<times> event) list" where
  "reconnect_trace =
     [(0, Connect (Sid 1)), (0, JoinRoom (Sid 1) ''ABC123'' ''a@x.com''),
      (10000, Disconnect (Sid 1)),
      (12000, Connect (Sid 2)), (12000, JoinRoom (Sid 2) ''ABC123'' ''a@x.com''),
      (20000, CleanupInterval)]"

definition st_connected :: server where
  "st_connected = init_server\<lparr>sockets := [Sid 1]\<rparr>"

definition st_joined :: server where
  "st_joined =
     \<lparr> rooms = [''ABC123'' \<mapsto> 0],
       heap = (\<lambda>r. Room [] 0)(0 := (Room ''ABC123'' 0)\<lparr>participants := [Sid 1]\<rparr>),
       next_ref = 1,
       all_participants =
         [Sid 1 \<mapsto> \<lparr> p_userEmail = ''a@x.com'', p_roomCode = ''ABC123'', p_joinedAt = 0 \<rparr>],
       socketToUser = [Sid 1 \<mapsto> (''a@x.com'', ''ABC123'')],
       userToSocket = [''a@x.com'' \<mapsto> Sid 1],
       userLastActivity = [''a@x.com'' \<mapsto> 0],
       sockets = [Sid 1],
       joined = [(Sid 1, ''ABC123'')],
       timers = [(1000, SendRoomParticipants (Sid 1) []),
                 (1500, NotifyUserJoined (Sid 1) ''ABC123'' ''a@x.com'')],
       outbox = [(IoTo (RoomChannel ''ABC123''),
                  ParticipantsUpdateEv 1 [(Sid 1, ''a@x.com'')])],
       date_now = 0 \<rparr>"

definition st_dropped :: server where
  "st_dropped =
     st_joined\<lparr> sockets := [], joined := [],
       timers := [(15000, GraceRemoval (Sid 1) ''ABC123'' ''a@x.com'' 0)],
       outbox := outbox st_joined @
         [(Emit (Sid 1), RoomParticipantsEv []),
          (SocketTo (Sid 1) (RoomChannel ''ABC123''), UserJoinedEv (Sid 1) ''a@x.com'')],
       date_now := 10000 \<rparr>"

definition st_reconnected :: server where
  "st_reconnected = st_dropped\<lparr> sockets := [Sid 2], date_now := 12000 \<rparr>"

definition st_rejoined :: server where
  "st_rejoined =
     st_reconnected\<lparr>
       heap := (\<lambda>r. Room [] 0)
                 (0 := (Room ''ABC123'' 0)\<lparr>participants := [Sid 1, Sid 2]\<rparr>),
       all_participants :=
         [Sid 1 \<mapsto> \<lparr> p_userEmail = ''a@x.com'', p_roomCode = ''ABC123'', p_joinedAt = 0 \<rparr>,
          Sid 2 \<mapsto> \<lparr> p_userEmail = ''a@x.com'', p_roomCode = ''ABC123'',
                      p_joinedAt = 12000 \<rparr>],
       socketToUser := [Sid 2 \<mapsto> (''a@x.com'', ''ABC123'')],
       userToSocket := [''a@x.com'' \<mapsto> Sid 2],
       userLastActivity := [''a@x.com'' \<mapsto> 12000],
       joined := [(Sid 2, ''ABC123'')],
       timers := [(15000, GraceRemoval (Sid 1) ''ABC123'' ''a@x.com'' 0),
                  (13000, SendRoomParticipants (Sid 2) [(Sid 1, ''a@x.com'')]),
                  (13500, NotifyUserJoined (Sid 2) ''ABC123'' ''a@x.com'')],
       outbox := outbox st_reconnected @
         [(IoTo (RoomChannel ''ABC123''),
           ParticipantsUpdateEv 2 [(Sid 1, ''a@x.com''), (Sid 2, ''a@x.com'')])] \<rparr>"

definition st_settled :: server where
  "st_settled =
     st_rejoined\<lparr> timers := [],
       outbox := outbox st_rejoined @
         [(Emit (Sid 2), RoomParticipantsEv [(Sid 1, ''a@x.com'')]),
          (SocketTo (Sid 2) (RoomChannel ''ABC123''), UserJoinedEv (Sid 2) ''a@x.com'')],
       date_now := 20000 \<rparr>"

subsection \<open>A full room and a socket it turned away\<close>

text \<open>
  A second run. The room ROOM1 is created by the HTTP route; fifty users
  (\<open>crowd_email i\<close> on socket \<open>i\<close>) join it; \<open>z@x.com\<close> on socket 99 asks to join
  and is refused, the room being full; the fifty disconnect, and by time 5000 their
  removal checks have emptied the room and the sweep has deleted it.
  \<open>crowd_state k j late\<close> describes the states on the way: \<open>k\<close> users have joined,
  the first \<open>j\<close> of them have disconnected, and \<open>late\<close> tells whether socket 99 has
  asked. \<open>draining\<close> describes the states while the due timers fire, and \<open>stranded\<close>
  the state the run ends in.
\<close>

definition crowd_email :: "nat \<Rightarrow> string" where
  "crowd_email i = replicate (Suc i) CHR ''u'' @ ''@x.com''"

definition crowd_state :: "nat \<Rightarrow> nat \<Rightarrow> bool \<Rightarrow> server \<Rightarrow> bool" where
  "crowd_state k j late st \<longleftrightarrow>
     date_now st = 0
     \<and> rooms st ''ROOM1'' = Some 0
     \<and> maxParticipants (heap st 0) = 50 \<and> isActive (heap st 0)
     \<and> participants (heap st 0) = map Sid [0..<k]
     \<and> (\<forall>i. userToSocket st (crowd_email i) = (if i < k then Some (Sid i) else None))
     \<and> (\<forall>i<k. socketToUser st (Sid i) = Some (crowd_email i, ''ROOM1''))
     \<and> (\<forall>i. j \<le> i \<and> i < k \<longrightarrow> Sid i \<in> set (sockets st))
     \<and> (\<forall>tm \<in> set (timers st). 1000 \<le> fst tm \<and> fst tm \<le> 5000)
     \<and> (\<forall>d s rc u r. (d, GraceRemoval s rc u r) \<in> set (timers st) \<longrightarrow>
           (\<exists>i<j. s = Sid i \<and> rc = ''ROOM1'' \<and> u = crowd_email i \<and> r = 0))
     \<and> (\<forall>i<j. (5000, GraceRemoval (Sid i) ''ROOM1'' (crowd_email i) 0) \<in> set (timers st))
     \<and> (if late
         then socketToUser st (Sid 99) = Some (''z@x.com'', ''ROOM1'')
            \<and> userToSocket st ''z@x.com'' = Some (Sid 99)
            \<and> userLastActivity st ''z@x.com'' = Some 0
            \<and> Sid 99 \<in> set (sockets st)
         else userToSocket st ''z@x.com'' = None)"

definition stranded :: "server \<Rightarrow> bool" where
  "stranded st \<longleftrightarrow>
     Sid 99 \<in> set (sockets st)
     \<and> socketToUser st (Sid 99) = Some (''z@x.com'', ''ROOM1'')
     \<and> userToSocket st ''z@x.com'' = Some (Sid 99)
     \<and> userLastActivity st ''z@x.com'' = Some 0
     \<and> rooms st ''ROOM1'' = None
     \<and> timers st = []
     \<and> date_now st = 5000"

definition draining :: "(nat \<times> timer_action) list \<Rightarrow> server \<Rightarrow> bool" where
  "draining tms st \<longleftrightarrow>
     (\<forall>m \<in> set (participants (heap st 0)).
        \<exists>i<50. m = Sid i
          \<and> (\<exists>d. (d, GraceRemoval (Sid i) ''ROOM1'' (crowd_email i) 0) \<in> set tms)
          \<and> userToSocket st (crowd_email i) = Some (Sid i))
     \<and> (\<forall>d s rc u r. (d, GraceRemoval s rc u r) \<in> set tms \<longrightarrow>
           (\<exists>i<50. s = Sid i \<and> rc = ''ROOM1'' \<and> u = crowd_email i \<and> r = 0))
     \<and> (participants (heap st 0) = [] \<longrightarrow> \<not> isActive (heap st 0))
     \<and> socketToUser st (Sid 99) = Some (''z@x.com'', ''ROOM1'')
     \<and> userToSocket st ''z@x.com'' = Some (Sid 99)
     \<and> userLastActivity st ''z@x.com'' = Some 0
     \<and> Sid 99 \<in> set (sockets st)
     \<and> rooms st ''ROOM1'' = Some 0
     \<and> timers st = []
     \<and> date_now st = 5000"

definition crowd_joins :: "nat \<Rightarrow> (nat \<times> event) list" where
  "crowd_joins n =
     concat (map (\<lambda>i. [(0, Connect (Sid i)), (0, JoinRoom (Sid i) ''ROOM1'' (crowd_email i))])
               [0..<n])"

definition crowd_leaves :: "nat \<Rightarrow> (nat \<times> event) list" where
  "crowd_leaves n = map (\<lambda>i. (0, Disconnect (Sid i))) [0..<n]"

definition stranded_trace :: "(nat \<times> event) list" where
  "stranded_trace =
     [(0, HttpJoin ''z@x.com'' ''ROOM1'')] @ crowd_joins 50
     @ [(0, Connect (Sid 99)), (0, JoinRoom (Sid 99) ''ROOM1'' ''z@x.com'')]
     @ crowd_leaves 50 @ [(5000, CleanupInterval)]"

section \<open>Properties of the Room methods\<close>

lemma upper_char_idem: "upper_char (upper_char c) = upper_char c"
proof (cases "97 \<le> (of_char c :: nat) \<and> (of_char c :: nat) \<le> 122")
  case True
  then have "((of_char c :: nat) - 32) mod 256 = of_char c - 32"
    by (intro mod_less) arith
  moreover from True have "\<not> 97 \<le> (of_char c :: nat) - 32"
    by arith
  ultimately show ?thesis
    using True by (simp add: upper_char_def Let_def)
next
  case False
  then show ?thesis
    by (auto simp add: upper_char_def Let_def)
qed

lemma toUpperCase_idem: "toUpperCase (toUpperCase s) = toUpperCase s"
  by (simp add: toUpperCase_def upper_char_idem)

lemma length_slice_last: "length (slice_last n xs) \<le> n"
  by (simp add: slice_last_def)

text \<open>
  Claim C1. A room that holds as many members as its capacity of 50 rejects
  \<open>addParticipant\<close> with the error "Room is full", and neither its member set nor
  the global participants registry changes. Below capacity the call succeeds, the
  handle is a member afterwards (the other members stay), and the registry maps the
  handle to a participant entry with the given e-mail, the room's code and the join
  time; no other registry entry changes.
\<close>

theorem addParticipant_capacity:
  "maxParticipants this = 50 \<Longrightarrow>
     (length (participants this) = 50 \<longrightarrow>
        addParticipant sid email now this ps = (Inl (Error ''Room is full''), this, ps))
   \<and> (length (participants this) < 50 \<longrightarrow>
        (\<exists>this' ps'.
           addParticipant sid email now this ps = (Inr True, this', ps')
         \<and> set (participants this') = insert sid (set (participants this))
         \<and> this' = this\<lparr>participants := participants this'\<rparr>
         \<and> ps' sid = Some \<lparr> p_userEmail = email, p_roomCode = code this,
                              p_joinedAt = now \<rparr>
         \<and> (\<forall>k. k \<noteq> sid \<longrightarrow> ps' k = ps k)))"
  by (auto simp add: addParticipant_def set_add_def)

theorem addParticipant_capacity_witness:
  "maxParticipants ((Room ''R1'' 0)\<lparr>participants := map Sid [0..<50]\<rparr>) = 50
   \<and> addParticipant (Sid 77) ''a@x.com'' 5
         ((Room ''R1'' 0)\<lparr>participants := map Sid [0..<50]\<rparr>) Map.empty
       = (Inl (Error ''Room is full''),
          (Room ''R1'' 0)\<lparr>participants := map Sid [0..<50]\<rparr>, Map.empty)
   \<and> maxParticipants (Room ''R1'' 0) = 50
   \<and> fst (addParticipant (Sid 77) ''a@x.com'' 5 (Room ''R1'' 0) Map.empty) = Inr True
   \<and> participants (fst (snd (addParticipant (Sid 77) ''a@x.com'' 5 (Room ''R1'' 0)
         Map.empty))) = [Sid 77]"
  using addParticipant_capacity
          [of "(Room ''R1'' 0)\<lparr>participants := map Sid [0..<50]\<rparr>" "Sid 77"
              "''a@x.com''" 5 Map.empty]
        addParticipant_capacity [of "Room ''R1'' 0" "Sid 77" "''a@x.com''" 5 Map.empty]
  by (simp add: Room_def addParticipant_def set_add_def)

text \<open>
  Claim C5. After \<open>addMessage\<close> the history never holds more than 100 messages,
  whatever it held before. Appending to a history of exactly 100 drops the oldest
  message (the head) and puts the new message at the end.
\<close>

theorem addMessage_bounded_fifo:
  "length (messages (snd (addMessage body sender now rnd this))) \<le> 100
   \<and> (length (messages this) = 100 \<longrightarrow>
        messages (snd (addMessage body sender now rnd this))
          = tl (messages this) @ [fst (addMessage body sender now rnd this)])"
proof -
  have "length (messages this) = 100 \<Longrightarrow>
          drop (Suc 0) (messages this) = tl (messages this)"
    by (simp add: drop_Suc)
  then show ?thesis
    by (auto simp add: addMessage_def Let_def slice_last_def)
qed

theorem addMessage_bounded_fifo_witness:
  "length (messages ((Room ''R1'' 0)\<lparr>messages :=
       replicate 100 \<lparr> m_id = (1, 2), m_message = ''old'', m_senderEmail = ''a@x.com'',
                         m_timestamp = 1 \<rparr>\<rparr>)) = 100
   \<and> messages (snd (addMessage ''new'' ''b@x.com'' 9 3 ((Room ''R1'' 0)\<lparr>messages :=
       replicate 100 \<lparr> m_id = (1, 2), m_message = ''old'', m_senderEmail = ''a@x.com'',
                         m_timestamp = 1 \<rparr>\<rparr>)))
       = replicate 99 \<lparr> m_id = (1, 2), m_message = ''old'', m_senderEmail = ''a@x.com'',
                           m_timestamp = 1 \<rparr>
         @ [\<lparr> m_id = (9, 3), m_message = ''new'', m_senderEmail = ''b@x.com'',
               m_timestamp = 9 \<rparr>]"
proof -
  have t: "tl (replicate 100 x) = replicate 99 x" for x :: message_obj
    by simp
  show ?thesis
    using addMessage_bounded_fifo
            [of "''new''" "''b@x.com''" 9 3
                "(Room ''R1'' 0)\<lparr>messages :=
                   replicate 100 \<lparr> m_id = (1, 2), m_message = ''old'',
                     m_senderEmail = ''a@x.com'', m_timestamp = 1 \<rparr>\<rparr>"]
    by (simp add: t addMessage_def Let_def)
qed

text \<open>
  Claim C8 as the claim states it fails: on a room just constructed (empty, active) the
  removal of a handle that is not a member clears the active flag.
\<close>

theorem removeParticipant_absent_counterexample:
  "Sid 7 \<notin> set (participants (Room ''R1'' 0))
   \<and> isActive (Room ''R1'' 0)
   \<and> \<not> isActive (fst (snd (removeParticipant (Sid 7) (Room ''R1'' 0) Map.empty)))
   \<and> snd (removeParticipant (Sid 7) (Room ''R1'' 0) Map.empty)
       \<noteq> (Room ''R1'' 0, Map.empty)"
  by (auto simp add: removeParticipant_def Room_def set_delete_def Let_def)

lemma set_delete_absent: "x \<notin> set xs \<Longrightarrow> set_delete x xs = xs"
  by (induction xs) (auto simp add: set_delete_def)

lemma set_delete_idem: "set_delete x (set_delete x xs) = set_delete x xs"
  by (simp add: set_delete_def)

text \<open>
  Claim C8, amended. Repeating \<open>removeParticipant\<close> changes nothing and returns the same
  count. When a removal leaves the member set empty, the active flag is false and the
  count returned is zero. Removing a handle that is not a member returns the current
  member count and leaves the member set and the history as they were; it changes no
  state at all when, besides, the registry has no entry under the handle and the room
  is non-empty or already inactive.
\<close>

theorem removeParticipant_idempotent:
  "(case removeParticipant sid this ps of
      (n, this', ps') \<Rightarrow>
        removeParticipant sid this' ps' = (n, this', ps')
      \<and> (participants this' = [] \<longrightarrow> \<not> isActive this' \<and> n = 0)
      \<and> (sid \<notin> set (participants this) \<longrightarrow>
            n = length (participants this)
          \<and> participants this' = participants this
          \<and> messages this' = messages this
          \<and> (ps sid = None \<and> (participants this \<noteq> [] \<or> \<not> isActive this) \<longrightarrow>
                this' = this \<and> ps' = ps)))"
  by (auto simp add: removeParticipant_def Let_def set_delete_idem set_delete_absent)

theorem removeParticipant_idempotent_witness:
  "Sid 7 \<notin> set (participants ((Room ''R1'' 0)\<lparr>participants := [Sid 1]\<rparr>))
   \<and> removeParticipant (Sid 7) ((Room ''R1'' 0)\<lparr>participants := [Sid 1]\<rparr>) Map.empty
       = (1, (Room ''R1'' 0)\<lparr>participants := [Sid 1]\<rparr>, Map.empty)
   \<and> removeParticipant (Sid 1) ((Room ''R1'' 0)\<lparr>participants := [Sid 1]\<rparr>) Map.empty
       = (0, (Room ''R1'' 0)\<lparr>participants := [], isActive := False\<rparr>, Map.empty)"
  using removeParticipant_idempotent
          [of "Sid 7" "(Room ''R1'' 0)\<lparr>participants := [Sid 1]\<rparr>" Map.empty]
        removeParticipant_idempotent
          [of "Sid 1" "(Room ''R1'' 0)\<lparr>participants := [Sid 1]\<rparr>" Map.empty]
  by (simp add: removeParticipant_def Let_def set_delete_def Room_def)

text \<open>
  The size bound holds for every sequence of method calls on a constructed room.
\<close>

lemma length_set_delete: "length (set_delete x xs) \<le> length xs"
  by (simp add: set_delete_def)

lemma apply_room_op_bounded:
  assumes "maxParticipants (fst st) = 50" "length (participants (fst st)) \<le> 50"
  shows "maxParticipants (fst (apply_room_op op st)) = 50
       \<and> length (participants (fst (apply_room_op op st))) \<le> 50"
proof -
  obtain r ps where st: "st = (r, ps)"
    by (cases st)
  show ?thesis
  proof (cases op)
    case (OpAdd sid email t)
    with assms st show ?thesis
      by (auto simp add: addParticipant_def set_add_def)
  next
    case (OpRemove sid)
    have "length (set_delete sid (participants r)) \<le> 50"
      using assms(2) st length_set_delete [of sid "participants r"] by simp
    with OpRemove assms st show ?thesis
      by (simp add: removeParticipant_def Let_def)
  next
    case (OpMessage b u t rnd)
    with assms st show ?thesis
      by (simp add: addMessage_def Let_def)
  qed
qed

lemma run_room_ops_bounded:
  "maxParticipants (fst st) = 50 \<Longrightarrow> length (participants (fst st)) \<le> 50
     \<Longrightarrow> maxParticipants (fst (run_room_ops ops st)) = 50
       \<and> length (participants (fst (run_room_ops ops st))) \<le> 50"
proof (induction ops arbitrary: st)
  case Nil
  then show ?case by (simp add: run_room_ops_def)
next
  case (Cons op ops)
  have "maxParticipants (fst (apply_room_op op st)) = 50
       \<and> length (participants (fst (apply_room_op op st))) \<le> 50"
    using Cons.prems by (rule apply_room_op_bounded)
  then have "maxParticipants (fst (run_room_ops ops (apply_room_op op st))) = 50
       \<and> length (participants (fst (run_room_ops ops (apply_room_op op st)))) \<le> 50"
    by (intro Cons.IH) simp_all
  then show ?case
    by (simp add: run_room_ops_def)
qed

lemma room_size_bounded:
  "length (participants (fst (run_room_ops ops (Room c t, ps)))) \<le> 50"
  using run_room_ops_bounded [of "(Room c t, ps)" ops]
  by (simp add: Room_def)

text \<open>
  Claim C9 on the code: the size bound above holds, but a room that was emptied and is
  joined again holds a member while its active flag is still false, since
  \<open>addParticipant\<close> never sets the flag.
\<close>

theorem isActive_stale_after_rejoin:
  "participants (fst (run_room_ops
       [OpAdd (Sid 1) ''a@x.com'' 1, OpRemove (Sid 1), OpAdd (Sid 2) ''b@x.com'' 2]
       (Room ''R1'' 0, Map.empty))) = [Sid 2]
   \<and> \<not> isActive (fst (run_room_ops
       [OpAdd (Sid 1) ''a@x.com'' 1, OpRemove (Sid 1), OpAdd (Sid 2) ''b@x.com'' 2]
       (Room ''R1'' 0, Map.empty)))"
  by (simp add: run_room_ops_def addParticipant_def removeParticipant_def Room_def
        set_add_def set_delete_def Let_def)

section \<open>Properties of the registry and the handlers\<close>

text \<open>
  Claim C7. When the recipient's e-mail has no entry in \<open>userToSocket\<close>, the handler
  emits one error event to the sender and changes nothing else. When it is bound, the
  handler builds one private message (id and timestamp from the server's clock), sends
  it to the recipient's socket and emits the same object back to the sender; nothing
  else changes.
\<close>

theorem private_message_relay:
  "(userToSocket st recipient = None \<longrightarrow>
      private_message sock body sender recipient rc rnd st
        = st\<lparr>outbox := outbox st @ [(Emit sock, ErrorEv ''Recipient not found'')]\<rparr>)
   \<and> (userToSocket st recipient = Some rs \<longrightarrow>
      private_message sock body sender recipient rc rnd st
        = st\<lparr>outbox := outbox st @
            [(SocketTo sock (SocketChannel rs),
              PrivateMessageEv \<lparr> pm_id = (date_now st, rnd), pm_message = body,
                pm_senderEmail = sender, pm_recipientEmail = recipient,
                pm_timestamp = date_now st, pm_type = ''private'' \<rparr>),
             (Emit sock,
              PrivateMessageEv \<lparr> pm_id = (date_now st, rnd), pm_message = body,
                pm_senderEmail = sender, pm_recipientEmail = recipient,
                pm_timestamp = date_now st, pm_type = ''private'' \<rparr>)]\<rparr>)"
  by (simp add: private_message_def emit_def Let_def)

theorem private_message_relay_witness:
  "userToSocket init_server ''c@x.com'' = None
   \<and> outbox (private_message (Sid 1) ''hi'' ''a@x.com'' ''c@x.com'' ''ABC123'' 4 init_server)
       = [(Emit (Sid 1), ErrorEv ''Recipient not found'')]
   \<and> userToSocket (init_server\<lparr>userToSocket := [''c@x.com'' \<mapsto> Sid 3]\<rparr>) ''c@x.com''
       = Some (Sid 3)
   \<and> map fst (outbox (private_message (Sid 1) ''hi'' ''a@x.com'' ''c@x.com'' ''ABC123'' 4
         (init_server\<lparr>userToSocket := [''c@x.com'' \<mapsto> Sid 3]\<rparr>)))
       = [SocketTo (Sid 1) (SocketChannel (Sid 3)), Emit (Sid 1)]"
  using private_message_relay
          [of init_server "''c@x.com''" "Sid 1" "''hi''" "''a@x.com''" "''ABC123''" 4]
        private_message_relay
          [of "init_server\<lparr>userToSocket := [''c@x.com'' \<mapsto> Sid 3]\<rparr>" "''c@x.com''"
              "Sid 1" "''hi''" "''a@x.com''" "''ABC123''" 4 "Sid 3"]
  by (simp add: init_server_def)

subsection \<open>The identity mapping\<close>

lemma on_disconnect_bindings:
  "socketToUser (on_disconnect s st) = socketToUser st"
  "userToSocket (on_disconnect s st) = userToSocket st"
  by (simp_all add: on_disconnect_def setTimeout_def split: option.splits prod.splits)

lemma close_socket_bindings:
  "socketToUser (close_socket s st) = socketToUser st"
  "userToSocket (close_socket s st) = userToSocket st"
  by (simp_all add: close_socket_def on_disconnect_bindings)

lemma cleanup_existing_session_bindings:
  "socketToUser (cleanup_existing_session sock u st)
     = (case userToSocket st u of
          None \<Rightarrow> socketToUser st
        | Some e \<Rightarrow> if e \<noteq> sock then (socketToUser st)(e := None) else socketToUser st)"
  "userToSocket (cleanup_existing_session sock u st)
     = (case userToSocket st u of
          None \<Rightarrow> userToSocket st
        | Some e \<Rightarrow> if e \<noteq> sock then (userToSocket st)(u := None) else userToSocket st)"
  by (simp_all add: cleanup_existing_session_def Let_def close_socket_bindings
        split: option.splits)

lemma get_or_create_bindings:
  "socketToUser (snd (get_or_create c st)) = socketToUser st"
  "userToSocket (snd (get_or_create c st)) = userToSocket st"
  by (simp_all add: get_or_create_def createRoom_def Let_def split: option.splits)

lemma room_addParticipant_bindings:
  "socketToUser (snd (room_addParticipant r s e st)) = socketToUser st"
  "userToSocket (snd (room_addParticipant r s e st)) = userToSocket st"
  by (simp_all add: room_addParticipant_def addParticipant_def split: prod.splits)

lemma join_after_cleanup_bindings:
  "socketToUser (join_after_cleanup sock rc u st) = (socketToUser st)(sock \<mapsto> (u, rc))"
  "userToSocket (join_after_cleanup sock rc u st) = (userToSocket st)(u \<mapsto> sock)"
proof -
  let ?st3 = "updateUserActivity u
     (st\<lparr>joined := set_add (sock, rc) (joined st),
         socketToUser := (socketToUser st)(sock \<mapsto> (u, rc)),
         userToSocket := (userToSocket st)(u \<mapsto> sock)\<rparr>)"
  let ?st4 = "snd (get_or_create rc ?st3)"
  let ?st5 = "snd (room_addParticipant (fst (get_or_create rc ?st3)) sock u ?st4)"
  have a: "socketToUser ?st5 = (socketToUser st)(sock \<mapsto> (u, rc))"
    by (simp add: room_addParticipant_bindings get_or_create_bindings updateUserActivity_def)
  have b: "userToSocket ?st5 = (userToSocket st)(u \<mapsto> sock)"
    by (simp add: room_addParticipant_bindings get_or_create_bindings updateUserActivity_def)
  show "socketToUser (join_after_cleanup sock rc u st) = (socketToUser st)(sock \<mapsto> (u, rc))"
    using a
    by (simp add: join_after_cleanup_def Let_def emit_def setTimeout_def case_prod_beta
          split: sum.splits error.splits)
  show "userToSocket (join_after_cleanup sock rc u st) = (userToSocket st)(u \<mapsto> sock)"
    using b
    by (simp add: join_after_cleanup_def Let_def emit_def setTimeout_def case_prod_beta
          split: sum.splits error.splits)
qed

lemma grace_removal_bindings:
  "socketToUser (grace_removal sock rc u r st)
     = (if userToSocket st u = Some sock then (socketToUser st)(sock := None)
        else socketToUser st)"
  "userToSocket (grace_removal sock rc u r st)
     = (if userToSocket st u = Some sock then (userToSocket st)(u := None)
        else userToSocket st)"
  by (simp_all add: grace_removal_def room_removeParticipant_def emit_def Let_def
        case_prod_beta)

lemma bindings_agree_join_room:
  assumes "bindings_agree st"
  shows "bindings_agree (join_room sock rc u st)"
  using assms
  unfolding bindings_agree_def join_room_def join_after_cleanup_bindings
    cleanup_existing_session_bindings
  by (auto split: option.splits if_splits) (metis option.inject option.distinct(1))+

lemma bindings_agree_grace_removal:
  assumes "bindings_agree st"
  shows "bindings_agree (grace_removal sock rc u r st)"
  using assms
  unfolding bindings_agree_def grace_removal_bindings
  by (auto split: option.splits if_splits) (metis option.inject option.distinct(1))+

lemma bindings_agree_fire:
  "bindings_agree st \<Longrightarrow> bindings_agree (fire a st)"
  by (cases a) (simp_all add: bindings_agree_grace_removal, simp_all add: bindings_agree_def emit_def)

lemma bindings_agree_foldl_fire:
  "bindings_agree st \<Longrightarrow> bindings_agree (foldl (\<lambda>s tm. fire (snd tm) s) st tms)"
  by (induction tms arbitrary: st) (simp_all add: bindings_agree_fire)

lemma bindings_agree_advance:
  "bindings_agree st \<Longrightarrow> bindings_agree (advance t st)"
  unfolding advance_def Let_def
  by (rule bindings_agree_foldl_fire) (simp add: bindings_agree_def)

lemma bindings_agree_handler:
  "bindings_agree st \<Longrightarrow> bindings_agree (handler e st)"
proof (cases e)
  case (JoinRoom s rc u)
  assume "bindings_agree st"
  then show ?thesis by (simp add: JoinRoom bindings_agree_join_room)
next
  case (ChatMessage s b u rc rnd)
  assume "bindings_agree st"
  then show ?thesis
    by (simp add: ChatMessage bindings_agree_def chat_message_def room_addMessage_def emit_def
          case_prod_beta split: option.splits)
next
  case (Disconnect s)
  assume "bindings_agree st"
  then show ?thesis
    by (simp add: Disconnect bindings_agree_def close_socket_bindings)
next
  case (HttpJoin e c)
  assume "bindings_agree st"
  then show ?thesis
    by (simp add: HttpJoin bindings_agree_def http_join_def get_or_create_bindings)
qed (simp_all add: bindings_agree_def ping_def updateUserActivity_def emit_def signal_def
       private_message_def presence_def cleanupEmptyRooms_def Let_def
       split: option.splits prod.splits)

lemma bindings_agree_deliver:
  "bindings_agree st \<Longrightarrow> bindings_agree (deliver te st)"
  by (simp add: deliver_def handle_def bindings_agree_handler bindings_agree_advance
        split: option.splits)

lemma bindings_agree_run:
  "bindings_agree st \<Longrightarrow> bindings_agree (run es st)"
  unfolding run_def
  by (induction es arbitrary: st) (simp_all add: bindings_agree_deliver)

lemma bindings_agree_init: "bindings_agree init_server"
  by (simp add: bindings_agree_def init_server_def)

text \<open>
  Claim C2. In every state the server reaches, an identity is bound to at most one
  connection, whichever of \<open>userToSocket\<close> and \<open>socketToUser\<close> records the binding.
  When \<open>join-room\<close> arrives for an identity bound to another, live connection, the
  first part of the handler disconnects that connection and deletes both of its
  mapping entries; the new binding is installed by the second part, on the state
  the first part leaves.
\<close>

theorem one_connection_per_identity:
  "(\<forall>s1 s2. bound_to (run es init_server) u s1 \<and> bound_to (run es init_server) u s2
       \<longrightarrow> s1 = s2)
   \<and> (userToSocket st u = Some old \<and> old \<noteq> sock \<and> old \<in> set (sockets st) \<longrightarrow>
         old \<notin> set (sockets (cleanup_existing_session sock u st))
       \<and> socketToUser (cleanup_existing_session sock u st) old = None
       \<and> userToSocket (cleanup_existing_session sock u st) u = None
       \<and> join_room sock rc u st
           = join_after_cleanup sock rc u (cleanup_existing_session sock u st)
       \<and> socketToUser (join_room sock rc u st) sock = Some (u, rc)
       \<and> userToSocket (join_room sock rc u st) u = Some sock
       \<and> socketToUser (join_room sock rc u st) old = None)"
proof -
  have "bindings_agree (run es init_server)"
    by (rule bindings_agree_run [OF bindings_agree_init])
  then have one: "\<forall>s1 s2. bound_to (run es init_server) u s1
       \<and> bound_to (run es init_server) u s2 \<longrightarrow> s1 = s2"
    unfolding bindings_agree_def bound_to_def
    by (auto simp add: map_option_case split: option.splits)
       (metis option.inject option.distinct(1))+
  have live: "old \<in> set (sockets st) \<Longrightarrow>
      old \<notin> set (sockets (cleanup_existing_session sock u st))"
      if "userToSocket st u = Some old" "old \<noteq> sock"
    using that
    by (simp add: cleanup_existing_session_def close_socket_def on_disconnect_def
          setTimeout_def set_delete_def Let_def split: option.splits prod.splits)
  show ?thesis
    using one live
    by (auto simp add: join_room_def join_after_cleanup_bindings
          cleanup_existing_session_bindings)
qed


subsection \<open>The reconnect session, step by step\<close>

lemmas step_defs = deliver_def handle_def advance_def join_room_def
  join_after_cleanup_def cleanup_existing_session_def close_socket_def on_disconnect_def
  grace_removal_def get_or_create_def getRoom_def createRoom_def room_addParticipant_def
  room_removeParticipant_def addParticipant_def removeParticipant_def emit_def setTimeout_def
  updateUserActivity_def roster_def display_email_def set_add_def set_delete_def Room_def
  cleanupEmptyRooms_def Let_def

lemma toUpperCase_ABC123: "toUpperCase ''ABC123'' = ''ABC123''"
  by code_simp

lemma step_connect: "deliver (0, Connect (Sid 1)) init_server = st_connected"
  by (simp add: st_connected_def step_defs init_server_def)

lemma step_join: "deliver (0, JoinRoom (Sid 1) ''ABC123'' ''a@x.com'') st_connected = st_joined"
  by (simp add: st_connected_def st_joined_def step_defs toUpperCase_ABC123 init_server_def
        fun_eq_iff)

lemma step_drop: "deliver (10000, Disconnect (Sid 1)) st_joined = st_dropped"
  by (simp add: st_dropped_def st_joined_def step_defs toUpperCase_ABC123 fun_eq_iff)

lemma step_reconnect: "deliver (12000, Connect (Sid 2)) st_dropped = st_reconnected"
  by (simp add: st_reconnected_def st_dropped_def st_joined_def step_defs fun_eq_iff)

lemma step_rejoin:
  "deliver (12000, JoinRoom (Sid 2) ''ABC123'' ''a@x.com'') st_reconnected = st_rejoined"
  by (simp add: st_rejoined_def st_reconnected_def st_dropped_def st_joined_def step_defs
        toUpperCase_ABC123 fun_eq_iff)

lemma step_settle: "deliver (20000, CleanupInterval) st_rejoined = st_settled"
  by (simp add: st_settled_def st_rejoined_def st_reconnected_def st_dropped_def st_joined_def
        step_defs toUpperCase_ABC123 fun_eq_iff)

lemma run_reconnect_trace: "run reconnect_trace init_server = st_settled"
  by (simp only: run_def reconnect_trace_def foldl_Cons foldl_Nil step_connect step_join
        step_drop step_reconnect step_rejoin step_settle)


lemma run_join:
  "run [(0, Connect (Sid 1)), (0, JoinRoom (Sid 1) ''ABC123'' ''a@x.com'')] init_server
     = st_joined"
  by (simp only: run_def foldl_Cons foldl_Nil step_connect step_join)

theorem one_connection_per_identity_witness:
  "bound_to (run [(0, Connect (Sid 1)), (0, JoinRoom (Sid 1) ''ABC123'' ''a@x.com'')]
       init_server) ''a@x.com'' (Sid 1)
   \<and> userToSocket (st_joined\<lparr>sockets := [Sid 1, Sid 2]\<rparr>) ''a@x.com'' = Some (Sid 1)
   \<and> Sid 1 \<noteq> Sid 2
   \<and> Sid 1 \<in> set (sockets (st_joined\<lparr>sockets := [Sid 1, Sid 2]\<rparr>))
   \<and> Sid 1 \<notin> set (sockets (cleanup_existing_session (Sid 2) ''a@x.com''
                              (st_joined\<lparr>sockets := [Sid 1, Sid 2]\<rparr>)))
   \<and> userToSocket (cleanup_existing_session (Sid 2) ''a@x.com''
         (st_joined\<lparr>sockets := [Sid 1, Sid 2]\<rparr>)) ''a@x.com'' = None
   \<and> userToSocket (join_room (Sid 2) ''ABC123'' ''a@x.com''
         (st_joined\<lparr>sockets := [Sid 1, Sid 2]\<rparr>)) ''a@x.com'' = Some (Sid 2)
   \<and> socketToUser (join_room (Sid 2) ''ABC123'' ''a@x.com''
         (st_joined\<lparr>sockets := [Sid 1, Sid 2]\<rparr>)) (Sid 1) = None"
proof -
  have b: "bound_to st_joined ''a@x.com'' (Sid 1)"
    by (simp add: bound_to_def st_joined_def)
  have h: "userToSocket (st_joined\<lparr>sockets := [Sid 1, Sid 2]\<rparr>) ''a@x.com'' = Some (Sid 1)"
    "Sid 1 \<noteq> Sid 2" "Sid 1 \<in> set (sockets (st_joined\<lparr>sockets := [Sid 1, Sid 2]\<rparr>))"
    by (simp_all add: st_joined_def)
  show ?thesis
    using b h
      one_connection_per_identity
        [of "[(0, Connect (Sid 1)), (0, JoinRoom (Sid 1) ''ABC123'' ''a@x.com'')]"
            "''a@x.com''" "st_joined\<lparr>sockets := [Sid 1, Sid 2]\<rparr>" "Sid 1" "Sid 2"
            "''ABC123''"]
    unfolding run_join
    by blast
qed

text \<open>
  Claim C3 on the code. The user drops at 10000 and joins again on a new connection at
  12000. No "user-left" is emitted, and the removal check at 15000 does nothing; but
  the old handle is never taken out of the room, so the roster sent with the
  "participants-update" of the second join, and the room ever after, lists
  \<open>a@x.com\<close> twice, with count 2.
\<close>

theorem reconnect_leaves_ghost_member:
  "roster 0 (run reconnect_trace init_server)
     = [(Sid 1, ''a@x.com''), (Sid 2, ''a@x.com'')]
   \<and> rooms (run reconnect_trace init_server) ''ABC123'' = Some 0
   \<and> timers (run reconnect_trace init_server) = []
   \<and> outbox (run reconnect_trace init_server)
     = [(IoTo (RoomChannel ''ABC123''), ParticipantsUpdateEv 1 [(Sid 1, ''a@x.com'')]),
        (Emit (Sid 1), RoomParticipantsEv []),
        (SocketTo (Sid 1) (RoomChannel ''ABC123''), UserJoinedEv (Sid 1) ''a@x.com''),
        (IoTo (RoomChannel ''ABC123''),
         ParticipantsUpdateEv 2 [(Sid 1, ''a@x.com''), (Sid 2, ''a@x.com'')]),
        (Emit (Sid 2), RoomParticipantsEv [(Sid 1, ''a@x.com'')]),
        (SocketTo (Sid 2) (RoomChannel ''ABC123''), UserJoinedEv (Sid 2) ''a@x.com'')]"
  by (simp add: run_reconnect_trace st_settled_def st_rejoined_def st_reconnected_def
        st_dropped_def st_joined_def roster_def display_email_def Room_def)

subsection \<open>The registry in reachable states\<close>

lemma get_or_create_eq: "get_or_create c st = createRoom c st"
  by (simp add: get_or_create_def getRoom_def createRoom_def Let_def split: option.splits)

lemma registry_ok_frame:
  "registry_ok (st\<lparr>sockets := a\<rparr>) = registry_ok st"
  "registry_ok (st\<lparr>joined := b\<rparr>) = registry_ok st"
  "registry_ok (st\<lparr>socketToUser := c\<rparr>) = registry_ok st"
  "registry_ok (st\<lparr>userToSocket := d\<rparr>) = registry_ok st"
  "registry_ok (st\<lparr>userLastActivity := e\<rparr>) = registry_ok st"
  "registry_ok (st\<lparr>outbox := f\<rparr>) = registry_ok st"
  "registry_ok (st\<lparr>all_participants := g\<rparr>) = registry_ok st"
  "registry_ok (st\<lparr>date_now := h\<rparr>) = registry_ok st"
  by (simp_all add: registry_ok_def)

lemma registry_ok_emit: "registry_ok (emit t p st) = registry_ok st"
  by (simp add: emit_def registry_ok_frame)

lemma registry_ok_updateUserActivity: "registry_ok (updateUserActivity u st) = registry_ok st"
  by (simp add: updateUserActivity_def registry_ok_frame)

lemma registry_ok_timers_subset:
  "registry_ok st \<Longrightarrow> set ts \<subseteq> set (timers st) \<Longrightarrow> registry_ok (st\<lparr>timers := ts\<rparr>)"
  by (auto simp add: registry_ok_def)

lemma registry_ok_setTimeout:
  "registry_ok st \<Longrightarrow> (\<And>s rc u r. a = GraceRemoval s rc u r \<Longrightarrow> r < next_ref st)
     \<Longrightarrow> registry_ok (setTimeout a d st)"
  by (auto simp add: registry_ok_def setTimeout_def)

lemma registry_ok_createRoom: "registry_ok st \<Longrightarrow> registry_ok (snd (createRoom c st))"
  by (auto simp add: registry_ok_def createRoom_def Let_def Room_def toUpperCase_idem
        less_Suc_eq split: option.splits)

lemma registry_ok_heap_update:
  "registry_ok st \<Longrightarrow> code this' = code (heap st r)
     \<Longrightarrow> registry_ok (st\<lparr>heap := (heap st)(r := this')\<rparr>)"
  by (auto simp add: registry_ok_def)

lemma registry_ok_room_addParticipant:
  "registry_ok st \<Longrightarrow> registry_ok (snd (room_addParticipant r s e st))"
  by (simp add: room_addParticipant_def addParticipant_def registry_ok_frame
        registry_ok_heap_update)

lemma registry_ok_room_removeParticipant:
  "registry_ok st \<Longrightarrow> registry_ok (snd (room_removeParticipant r s st))"
  by (simp add: room_removeParticipant_def removeParticipant_def Let_def registry_ok_frame
        registry_ok_heap_update)

lemma registry_ok_room_addMessage:
  "registry_ok st \<Longrightarrow> registry_ok (snd (room_addMessage r b u rnd st))"
  by (simp add: room_addMessage_def addMessage_def Let_def registry_ok_frame
        registry_ok_heap_update)

lemma registry_ok_setTimeout_other:
  "registry_ok (setTimeout (SendRoomParticipants s xs) d st) = registry_ok st"
  "registry_ok (setTimeout (NotifyUserJoined s rc u) d st) = registry_ok st"
  by (auto simp add: registry_ok_def setTimeout_def)

lemma registry_ok_on_disconnect:
  assumes "registry_ok st"
  shows "registry_ok (on_disconnect s st)"
proof (cases "socketToUser st s")
  case None
  then show ?thesis
    using assms by (simp add: on_disconnect_def)
next
  case (Some b)
  obtain u rc where b: "b = (u, rc)"
    by (cases b)
  show ?thesis
  proof (cases "getRoom rc st")
    case None
    with Some b assms show ?thesis
      by (simp add: on_disconnect_def)
  next
    case room: (Some room)
    then have "room < next_ref st"
      using assms by (auto simp add: registry_ok_def getRoom_def)
    then have "registry_ok (setTimeout (GraceRemoval s rc u room) 5000 st)"
      using assms by (intro registry_ok_setTimeout) auto
    with Some b room show ?thesis
      by (simp add: on_disconnect_def)
  qed
qed

lemma registry_ok_close_socket:
  "registry_ok st \<Longrightarrow> registry_ok (close_socket s st)"
  by (simp add: close_socket_def registry_ok_on_disconnect registry_ok_frame)

lemma registry_ok_cleanup_existing_session:
  "registry_ok st \<Longrightarrow> registry_ok (cleanup_existing_session sock u st)"
  by (simp add: cleanup_existing_session_def Let_def registry_ok_close_socket
        registry_ok_frame split: option.splits)

lemma registry_ok_join_after_cleanup:
  "registry_ok st \<Longrightarrow> registry_ok (join_after_cleanup sock rc u st)"
  by (simp add: join_after_cleanup_def Let_def case_prod_beta registry_ok_emit
        registry_ok_setTimeout_other registry_ok_room_addParticipant get_or_create_eq
        registry_ok_createRoom registry_ok_updateUserActivity registry_ok_frame
        split: sum.splits error.splits)

lemma registry_ok_grace_removal:
  "registry_ok st \<Longrightarrow> registry_ok (grace_removal sock rc u r st)"
  by (simp add: grace_removal_def Let_def case_prod_beta registry_ok_emit
        registry_ok_room_removeParticipant registry_ok_frame)

lemma registry_ok_chat_message:
  "registry_ok st \<Longrightarrow> registry_ok (chat_message s b u rc rnd st)"
  by (simp add: chat_message_def case_prod_beta registry_ok_emit
        registry_ok_room_addMessage split: option.splits)

lemma registry_ok_cleanupEmptyRooms:
  "registry_ok st \<Longrightarrow> registry_ok (cleanupEmptyRooms st)"
  by (auto simp add: registry_ok_def cleanupEmptyRooms_def split: option.splits if_splits)

lemma registry_ok_handler: "registry_ok st \<Longrightarrow> registry_ok (handler e st)"
  by (cases e)
     (simp_all add: join_room_def registry_ok_join_after_cleanup
        registry_ok_cleanup_existing_session ping_def signal_def private_message_def
        presence_def http_join_def get_or_create_eq registry_ok_createRoom
        registry_ok_chat_message registry_ok_close_socket registry_ok_cleanupEmptyRooms
        registry_ok_emit registry_ok_updateUserActivity registry_ok_frame Let_def
        split: option.splits prod.splits)

lemma registry_ok_fire: "registry_ok st \<Longrightarrow> registry_ok (fire a st)"
  by (cases a) (simp_all add: registry_ok_grace_removal registry_ok_emit)

lemma registry_ok_foldl_fire:
  "registry_ok st \<Longrightarrow> registry_ok (foldl (\<lambda>s tm. fire (snd tm) s) st tms)"
  by (induction tms arbitrary: st) (simp_all add: registry_ok_fire)

lemma registry_ok_advance: "registry_ok st \<Longrightarrow> registry_ok (advance t st)"
  unfolding advance_def Let_def
  by (rule registry_ok_foldl_fire)
     (simp add: registry_ok_frame registry_ok_timers_subset)

lemma registry_ok_deliver: "registry_ok st \<Longrightarrow> registry_ok (deliver te st)"
  by (simp add: deliver_def handle_def registry_ok_handler registry_ok_advance
        split: option.splits)

lemma registry_ok_run: "registry_ok st \<Longrightarrow> registry_ok (run es st)"
  unfolding run_def
  by (induction es arbitrary: st) (simp_all add: registry_ok_deliver)

lemma registry_ok_init: "registry_ok init_server"
  by (simp add: registry_ok_def init_server_def)

lemma registry_ok_code:
  "registry_ok st \<Longrightarrow> rooms st c = Some r \<Longrightarrow> code (heap st r) = c"
  unfolding registry_ok_def by blast

lemma toUpperCase_abc123: "toUpperCase ''abc123'' = ''ABC123''"
  by code_simp


text \<open>
  Claim C6. \<open>createRoom\<close> returns a room for the code and, called again on the state
  it leaves (directly, or as the coordinator does after \<open>getRoom\<close>), returns the same
  room and changes nothing, so no second object is made; a code that differs only in
  letter case gets the same room. A room made by \<open>createRoom\<close> stores the upper-case
  code, and an existing room is returned with the state untouched. In every state the
  server reaches, a registered room's stored code is the upper-case key it is
  registered under, and no room is registered under two keys.
\<close>

theorem createRoom_idempotent:
  "(case createRoom c st of
      (r1, st1) \<Rightarrow>
        createRoom c st1 = (r1, st1)
      \<and> get_or_create c st1 = (r1, st1)
      \<and> getRoom c st1 = Some r1
      \<and> (toUpperCase c' = toUpperCase c \<longrightarrow>
            createRoom c' st1 = (r1, st1) \<and> get_or_create c' st1 = (r1, st1))
      \<and> (rooms st (toUpperCase c) = None \<longrightarrow>
            code (heap st1 r1) = toUpperCase c \<and> participants (heap st1 r1) = [])
      \<and> (rooms st (toUpperCase c) \<noteq> None \<longrightarrow> st1 = st))
   \<and> get_or_create c st = createRoom c st
   \<and> toUpperCase (toUpperCase c) = toUpperCase c
   \<and> (rooms (run es init_server) k = Some r \<longrightarrow>
         code (heap (run es init_server) r) = k \<and> toUpperCase k = k
       \<and> (\<forall>k'. rooms (run es init_server) k' = Some r \<longrightarrow> k' = k))"
proof -
  have ok: "registry_ok (run es init_server)"
    by (rule registry_ok_run [OF registry_ok_init])
  have reach: "rooms (run es init_server) k = Some r \<longrightarrow>
         code (heap (run es init_server) r) = k \<and> toUpperCase k = k
       \<and> (\<forall>k'. rooms (run es init_server) k' = Some r \<longrightarrow> k' = k)"
    using ok registry_ok_code [OF ok] unfolding registry_ok_def by blast
  have "case createRoom c st of
      (r1, st1) \<Rightarrow>
        createRoom c st1 = (r1, st1)
      \<and> get_or_create c st1 = (r1, st1)
      \<and> getRoom c st1 = Some r1
      \<and> (toUpperCase c' = toUpperCase c \<longrightarrow>
            createRoom c' st1 = (r1, st1) \<and> get_or_create c' st1 = (r1, st1))
      \<and> (rooms st (toUpperCase c) = None \<longrightarrow>
            code (heap st1 r1) = toUpperCase c \<and> participants (heap st1 r1) = [])
      \<and> (rooms st (toUpperCase c) \<noteq> None \<longrightarrow> st1 = st)"
    by (auto simp add: createRoom_def get_or_create_def getRoom_def Let_def Room_def
          toUpperCase_idem split: option.splits)
  then show ?thesis
    using reach by (simp add: get_or_create_eq toUpperCase_idem)
qed

theorem createRoom_idempotent_witness:
  "toUpperCase ''ABC123'' = toUpperCase ''abc123''
   \<and> rooms init_server (toUpperCase ''abc123'') = None
   \<and> fst (createRoom ''abc123'' init_server) = 0
   \<and> createRoom ''ABC123'' (snd (createRoom ''abc123'' init_server))
       = (0, snd (createRoom ''abc123'' init_server))
   \<and> code (heap (snd (createRoom ''abc123'' init_server)) 0) = ''ABC123''
   \<and> rooms st_joined (toUpperCase ''abc123'') \<noteq> None
   \<and> snd (createRoom ''abc123'' st_joined) = st_joined
   \<and> rooms (run [(0, Connect (Sid 1)), (0, JoinRoom (Sid 1) ''ABC123'' ''a@x.com'')]
         init_server) ''ABC123'' = Some 0
   \<and> code (heap (run [(0, Connect (Sid 1)), (0, JoinRoom (Sid 1) ''ABC123'' ''a@x.com'')]
         init_server) 0) = ''ABC123''"
proof -
  have h1: "toUpperCase ''ABC123'' = toUpperCase ''abc123''"
    by (simp add: toUpperCase_abc123 toUpperCase_ABC123)
  have h2: "rooms init_server (toUpperCase ''abc123'') = None"
    by (simp add: init_server_def)
  have h3: "fst (createRoom ''abc123'' init_server) = 0"
    by (simp add: createRoom_def init_server_def Let_def)
  have h4: "rooms st_joined (toUpperCase ''abc123'') \<noteq> None"
    by (simp add: st_joined_def toUpperCase_abc123)
  have h5: "rooms (run [(0, Connect (Sid 1)), (0, JoinRoom (Sid 1) ''ABC123'' ''a@x.com'')]
         init_server) ''ABC123'' = Some 0"
    unfolding run_join by (simp add: st_joined_def)
  have a: "createRoom ''ABC123'' (snd (createRoom ''abc123'' init_server))
       = (0, snd (createRoom ''abc123'' init_server))
     \<and> code (heap (snd (createRoom ''abc123'' init_server)) 0) = ''ABC123''"
    using h1 h2 h3 createRoom_idempotent
        [where c = "''abc123''" and st = init_server and c' = "''ABC123''"
           and es = "[]" and k = "''ABC123''" and r = 0]
    by (simp add: case_prod_beta toUpperCase_abc123)
  have b: "snd (createRoom ''abc123'' st_joined) = st_joined"
    using h4 createRoom_idempotent
        [where c = "''abc123''" and st = st_joined and c' = "''ABC123''" and es = "[]"
           and k = "''ABC123''" and r = 0]
    by (simp add: case_prod_beta)
  have c: "code (heap (run [(0, Connect (Sid 1)),
                            (0, JoinRoom (Sid 1) ''ABC123'' ''a@x.com'')] init_server) 0)
             = ''ABC123''"
    using h5 createRoom_idempotent
        [where c = "''abc123''" and st = init_server and c' = "''ABC123''"
           and es = "[(0, Connect (Sid 1)), (0, JoinRoom (Sid 1) ''ABC123'' ''a@x.com'')]"
           and k = "''ABC123''" and r = 0]
    by blast
  show ?thesis
    by (intro conjI h1 h2 h3 h4 h5 b c conjunct1 [OF a] conjunct2 [OF a])
qed


subsection \<open>Rooms that nobody joined\<close>



































































subsection \<open>The removal check after the grace period\<close>

lemma toUpperCase_ROOM1: "toUpperCase ''ROOM1'' = ''ROOM1''"
  by code_simp

lemma crowd_email_inj: "crowd_email i = crowd_email j \<longleftrightarrow> i = j"
proof
  assume "crowd_email i = crowd_email j"
  then have "length (crowd_email i) = length (crowd_email j)"
    by simp
  then show "i = j"
    by (simp add: crowd_email_def)
qed simp

lemma crowd_email_not_z: "crowd_email i \<noteq> ''z@x.com''"
  by (simp add: crowd_email_def)

lemma crowd_email_not_empty: "crowd_email i \<noteq> []"
  by (simp add: crowd_email_def)

lemma advance_idle:
  assumes "date_now st = 0" "\<forall>tm \<in> set (timers st). 1000 \<le> fst tm"
  shows "advance 0 st = st"
proof -
  have a: "filter (\<lambda>tm. fst tm = 0) (timers st) = []"
    using assms(2) by (auto simp add: filter_empty_conv)
  have b: "filter (\<lambda>tm. 0 < fst tm) (timers st) = timers st"
    using assms(2) by (auto simp add: filter_id_conv)
  show ?thesis
    using assms(1) by (simp add: advance_def Let_def a b)
qed

lemma join_room_accepted:
  assumes "userToSocket st u = None" "rooms st (toUpperCase rc) = Some r"
    "length (participants (heap st r)) < maxParticipants (heap st r)"
  shows "rooms (join_room s rc u st) = rooms st"
    and "date_now (join_room s rc u st) = date_now st"
    and "sockets (join_room s rc u st) = sockets st"
    and "heap (join_room s rc u st)
           = (heap st)(r := (heap st r)\<lparr>participants := set_add s (participants (heap st r))\<rparr>)"
    and "socketToUser (join_room s rc u st) = (socketToUser st)(s \<mapsto> (u, rc))"
    and "userToSocket (join_room s rc u st) = (userToSocket st)(u \<mapsto> s)"
    and "\<exists>xs. timers (join_room s rc u st)
           = timers st @ [(date_now st + 1000, SendRoomParticipants s xs),
                          (date_now st + 1500, NotifyUserJoined s rc u)]"
  using assms
  by (simp_all add: join_room_def cleanup_existing_session_def join_after_cleanup_def
        get_or_create_def getRoom_def room_addParticipant_def addParticipant_def
        updateUserActivity_def emit_def setTimeout_def Let_def)

lemma join_room_rejected:
  assumes "userToSocket st u = None" "rooms st (toUpperCase rc) = Some r"
    "maxParticipants (heap st r) \<le> length (participants (heap st r))" "u \<noteq> []"
  shows "join_room s rc u st
     = st\<lparr>joined := set_add (s, rc) (joined st),
          socketToUser := (socketToUser st)(s \<mapsto> (u, rc)),
          userToSocket := (userToSocket st)(u \<mapsto> s),
          userLastActivity := (userLastActivity st)(u \<mapsto> date_now st),
          outbox := outbox st @ [(Emit s, ErrorEv ''Room is full'')]\<rparr>"
  using assms
  by (simp add: join_room_def cleanup_existing_session_def join_after_cleanup_def
        get_or_create_def getRoom_def room_addParticipant_def addParticipant_def
        updateUserActivity_def emit_def Let_def)

lemma close_socket_bound:
  assumes "s \<in> set (sockets st)" "socketToUser st s = Some (u, rc)"
    "rooms st (toUpperCase rc) = Some r"
  shows "close_socket s st
     = st\<lparr>sockets := set_delete s (sockets st),
          joined := filter (\<lambda>(x, c). x \<noteq> s) (joined st),
          timers := timers st @ [(date_now st + 5000, GraceRemoval s rc u r)]\<rparr>"
  using assms
  by (simp add: close_socket_def on_disconnect_def getRoom_def setTimeout_def)

lemma close_socket_stranded:
  assumes "s \<in> set (sockets st)" "socketToUser st s = Some (u, rc)"
    "rooms st (toUpperCase rc) = None"
  shows "close_socket s st
     = st\<lparr>sockets := set_delete s (sockets st),
          joined := filter (\<lambda>(x, c). x \<noteq> s) (joined st)\<rparr>"
  using assms
  by (simp add: close_socket_def on_disconnect_def getRoom_def)

lemma crowd_state_idle:
  "crowd_state k j late st \<Longrightarrow> advance 0 st = st"
  by (rule advance_idle) (auto simp add: crowd_state_def)

lemma crowd_connect:
  assumes "crowd_state k j late st"
  shows "crowd_state k j late (deliver (0, Connect s) st)"
    and "s \<in> set (sockets (deliver (0, Connect s) st))"
proof -
  have eq: "deliver (0, Connect s) st
      = (if s \<in> set (sockets st) then st else st\<lparr>sockets := sockets st @ [s]\<rparr>)"
    by (simp add: deliver_def handle_def crowd_state_idle [OF assms])
  show "s \<in> set (sockets (deliver (0, Connect s) st))"
    by (simp add: eq)
  show "crowd_state k j late (deliver (0, Connect s) st)"
    using assms unfolding eq crowd_state_def by simp
qed

lemma map_Sid_snoc: "set_add (Sid k) (map Sid [0..<k]) = map Sid [0..<Suc k]"
  by (auto simp add: set_add_def)

lemma crowd_join:
  assumes cs: "crowd_state k 0 False st" and live: "Sid k \<in> set (sockets st)" and k: "k < 50"
  shows "crowd_state (Suc k) 0 False (deliver (0, JoinRoom (Sid k) ''ROOM1'' (crowd_email k)) st)"
proof -
  let ?st' = "join_room (Sid k) ''ROOM1'' (crowd_email k) st"
  have eq: "deliver (0, JoinRoom (Sid k) ''ROOM1'' (crowd_email k)) st = ?st'"
    using live by (simp add: deliver_def handle_def crowd_state_idle [OF cs])
  have h1: "userToSocket st (crowd_email k) = None"
    using cs by (simp add: crowd_state_def)
  have h2: "rooms st (toUpperCase ''ROOM1'') = Some 0"
    using cs by (simp add: crowd_state_def toUpperCase_ROOM1)
  have h3: "length (participants (heap st 0)) < maxParticipants (heap st 0)"
    using cs k by (simp add: crowd_state_def)
  note eff = join_room_accepted [OF h1 h2 h3, of "Sid k"]
  obtain xs where tm: "timers ?st'
      = timers st @ [(date_now st + 1000, SendRoomParticipants (Sid k) xs),
                     (date_now st + 1500, NotifyUserJoined (Sid k) ''ROOM1'' (crowd_email k))]"
    using eff(7) by blast
  have "crowd_state (Suc k) 0 False ?st'"
    unfolding crowd_state_def
  proof (intro conjI)
    show "date_now ?st' = 0"
      using cs by (simp add: eff crowd_state_def)
    show "rooms ?st' ''ROOM1'' = Some 0"
      using cs by (simp add: eff crowd_state_def)
    show "maxParticipants (heap ?st' 0) = 50"
      using cs by (simp add: eff crowd_state_def)
    show "isActive (heap ?st' 0)"
      using cs by (simp add: eff crowd_state_def)
    show "participants (heap ?st' 0) = map Sid [0..<Suc k]"
      using cs map_Sid_snoc [of k] by (simp add: eff crowd_state_def)
    show "\<forall>i. userToSocket ?st' (crowd_email i) = (if i < Suc k then Some (Sid i) else None)"
      using cs by (auto simp add: eff crowd_state_def crowd_email_inj less_Suc_eq)
    show "\<forall>i<Suc k. socketToUser ?st' (Sid i) = Some (crowd_email i, ''ROOM1'')"
      using cs by (auto simp add: eff crowd_state_def less_Suc_eq)
    show "\<forall>i. 0 \<le> i \<and> i < Suc k \<longrightarrow> Sid i \<in> set (sockets ?st')"
      using cs live by (auto simp add: eff crowd_state_def less_Suc_eq)
    show "\<forall>tm\<in>set (timers ?st'). 1000 \<le> fst tm \<and> fst tm \<le> 5000"
      using cs by (auto simp add: tm crowd_state_def)
    show "\<forall>d s rc u r. (d, GraceRemoval s rc u r) \<in> set (timers ?st') \<longrightarrow>
            (\<exists>i<0. s = Sid i \<and> rc = ''ROOM1'' \<and> u = crowd_email i \<and> r = 0)"
      using cs by (auto simp add: tm crowd_state_def)
    show "\<forall>i<0. (5000, GraceRemoval (Sid i) ''ROOM1'' (crowd_email i) 0) \<in> set (timers ?st')"
      by simp
    show "if False
      then socketToUser ?st' (Sid 99) = Some (''z@x.com'', ''ROOM1'')
         \<and> userToSocket ?st' ''z@x.com'' = Some (Sid 99)
         \<and> userLastActivity ?st' ''z@x.com'' = Some 0
         \<and> Sid 99 \<in> set (sockets ?st')
      else userToSocket ?st' ''z@x.com'' = None"
      using cs crowd_email_not_z [of k] by (simp add: eff crowd_state_def)
  qed
  then show ?thesis
    by (simp only: eq)
qed

lemma crowd_reject:
  assumes cs: "crowd_state 50 0 False st" and live: "Sid 99 \<in> set (sockets st)"
  shows "crowd_state 50 0 True (deliver (0, JoinRoom (Sid 99) ''ROOM1'' ''z@x.com'') st)"
proof -
  have h1: "userToSocket st ''z@x.com'' = None"
    using cs by (simp add: crowd_state_def)
  have h2: "rooms st (toUpperCase ''ROOM1'') = Some 0"
    using cs by (simp add: crowd_state_def toUpperCase_ROOM1)
  have h3: "maxParticipants (heap st 0) \<le> length (participants (heap st 0))"
    using cs by (simp add: crowd_state_def)
  have eq: "deliver (0, JoinRoom (Sid 99) ''ROOM1'' ''z@x.com'') st
      = st\<lparr>joined := set_add (Sid 99, ''ROOM1'') (joined st),
           socketToUser := (socketToUser st)(Sid 99 \<mapsto> (''z@x.com'', ''ROOM1'')),
           userToSocket := (userToSocket st)(''z@x.com'' \<mapsto> Sid 99),
           userLastActivity := (userLastActivity st)(''z@x.com'' \<mapsto> date_now st),
           outbox := outbox st @ [(Emit (Sid 99), ErrorEv ''Room is full'')]\<rparr>"
    using live join_room_rejected [OF h1 h2 h3, of "Sid 99"]
    by (simp add: deliver_def handle_def crowd_state_idle [OF cs])
  show ?thesis
    using cs live crowd_email_not_z unfolding eq crowd_state_def
    by auto
qed

lemma crowd_leave:
  assumes cs: "crowd_state 50 j True st" and j: "j < 50"
  shows "crowd_state 50 (Suc j) True (deliver (0, Disconnect (Sid j)) st)"
proof -
  let ?st' = "st\<lparr>sockets := set_delete (Sid j) (sockets st),
                  joined := filter (\<lambda>(x, c). x \<noteq> Sid j) (joined st),
                  timers := timers st
                    @ [(5000, GraceRemoval (Sid j) ''ROOM1'' (crowd_email j) 0)]\<rparr>"
  have live: "Sid j \<in> set (sockets st)"
    using cs j by (simp add: crowd_state_def)
  have h1: "socketToUser st (Sid j) = Some (crowd_email j, ''ROOM1'')"
    using cs j by (simp add: crowd_state_def)
  have h2: "rooms st (toUpperCase ''ROOM1'') = Some 0"
    using cs by (simp add: crowd_state_def toUpperCase_ROOM1)
  have now: "date_now st = 0"
    using cs by (simp add: crowd_state_def)
  have eq: "deliver (0, Disconnect (Sid j)) st = ?st'"
    using live close_socket_bound [OF live h1 h2] now
    by (simp add: deliver_def handle_def crowd_state_idle [OF cs])
  have "crowd_state 50 (Suc j) True ?st'"
    unfolding crowd_state_def
  proof (intro conjI)
    show "\<forall>i. Suc j \<le> i \<and> i < 50 \<longrightarrow> Sid i \<in> set (sockets ?st')"
      using cs by (auto simp add: crowd_state_def set_delete_def)
    show "\<forall>d s rc u r. (d, GraceRemoval s rc u r) \<in> set (timers ?st') \<longrightarrow>
            (\<exists>i<Suc j. s = Sid i \<and> rc = ''ROOM1'' \<and> u = crowd_email i \<and> r = 0)"
    proof (intro allI impI)
      fix d s rc u r
      assume "(d, GraceRemoval s rc u r) \<in> set (timers ?st')"
      then consider "(d, GraceRemoval s rc u r) \<in> set (timers st)"
        | "s = Sid j \<and> rc = ''ROOM1'' \<and> u = crowd_email j \<and> r = 0"
        by auto
      then show "\<exists>i<Suc j. s = Sid i \<and> rc = ''ROOM1'' \<and> u = crowd_email i \<and> r = 0"
      proof cases
        case 1
        then obtain i where "i < j" "s = Sid i \<and> rc = ''ROOM1'' \<and> u = crowd_email i \<and> r = 0"
          using cs unfolding crowd_state_def by blast
        then show ?thesis
          using less_Suc_eq by blast
      next
        case 2
        then show ?thesis by blast
      qed
    qed
    show "\<forall>i<Suc j. (5000, GraceRemoval (Sid i) ''ROOM1'' (crowd_email i) 0)
            \<in> set (timers ?st')"
      using cs by (auto simp add: crowd_state_def less_Suc_eq)
    show "if True
      then socketToUser ?st' (Sid 99) = Some (''z@x.com'', ''ROOM1'')
         \<and> userToSocket ?st' ''z@x.com'' = Some (Sid 99)
         \<and> userLastActivity ?st' ''z@x.com'' = Some 0
         \<and> Sid 99 \<in> set (sockets ?st')
      else userToSocket ?st' ''z@x.com'' = None"
      using cs j by (auto simp add: crowd_state_def set_delete_def)
  qed (use cs in \<open>auto simp add: crowd_state_def\<close>)
  then show ?thesis
    by (simp only: eq)
qed

lemma grace_removal_passes:
  assumes "userToSocket st u = Some s"
  shows "participants (heap (grace_removal s rc u r st) r) = set_delete s (participants (heap st r))"
    and "isActive (heap (grace_removal s rc u r st) r)
           = (set_delete s (participants (heap st r)) \<noteq> [] \<and> isActive (heap st r))"
    and "socketToUser (grace_removal s rc u r st) = (socketToUser st)(s := None)"
    and "userToSocket (grace_removal s rc u r st) = (userToSocket st)(u := None)"
    and "userLastActivity (grace_removal s rc u r st) = (userLastActivity st)(u := None)"
    and "rooms (grace_removal s rc u r st) = rooms st"
    and "timers (grace_removal s rc u r st) = timers st"
    and "date_now (grace_removal s rc u r st) = date_now st"
    and "sockets (grace_removal s rc u r st) = sockets st"
  using assms
  by (simp_all add: grace_removal_def room_removeParticipant_def removeParticipant_def
        emit_def Let_def)

lemma draining_emit: "draining tms (emit t p st) = draining tms st"
  by (simp add: draining_def emit_def)

lemma draining_step:
  assumes dr: "draining (tm # tms) st"
  shows "draining tms (fire (snd tm) st)"
proof (cases "snd tm")
  case (SendRoomParticipants s xs)
  have "draining tms st"
    using dr SendRoomParticipants unfolding draining_def by (cases tm) auto
  then show ?thesis
    by (simp add: SendRoomParticipants draining_emit)
next
  case (NotifyUserJoined s rc u)
  have "draining tms st"
    using dr NotifyUserJoined unfolding draining_def by (cases tm) auto
  then show ?thesis
    by (simp add: NotifyUserJoined draining_emit)
next
  case (GraceRemoval s rc u r)
  then have "(fst tm, GraceRemoval s rc u r) \<in> set (tm # tms)"
    by (cases tm) simp
  then obtain i0 where i0: "i0 < 50" "s = Sid i0" "rc = ''ROOM1''" "u = crowd_email i0" "r = 0"
    using dr unfolding draining_def by blast
  have tm: "tm = (fst tm, GraceRemoval (Sid i0) ''ROOM1'' (crowd_email i0) 0)"
    using GraceRemoval i0 by (cases tm) simp
  have shape: "\<forall>d s rc u r. (d, GraceRemoval s rc u r) \<in> set tms \<longrightarrow>
           (\<exists>i<50. s = Sid i \<and> rc = ''ROOM1'' \<and> u = crowd_email i \<and> r = 0)"
    using dr unfolding draining_def by auto
  have mem: "\<exists>i<50. m = Sid i
          \<and> (\<exists>d. (d, GraceRemoval (Sid i) ''ROOM1'' (crowd_email i) 0) \<in> set (tm # tms))
          \<and> userToSocket st (crowd_email i) = Some (Sid i)"
    if "m \<in> set (participants (heap st 0))" for m
    using dr that unfolding draining_def by blast
  show ?thesis
  proof (cases "userToSocket st (crowd_email i0) = Some (Sid i0)")
    case False
    have "\<exists>i<50. m = Sid i
          \<and> (\<exists>d. (d, GraceRemoval (Sid i) ''ROOM1'' (crowd_email i) 0) \<in> set tms)
          \<and> userToSocket st (crowd_email i) = Some (Sid i)"
      if mm: "m \<in> set (participants (heap st 0))" for m
    proof -
      obtain i d where i: "i < 50" "m = Sid i"
        "(d, GraceRemoval (Sid i) ''ROOM1'' (crowd_email i) 0) \<in> set (tm # tms)"
        "userToSocket st (crowd_email i) = Some (Sid i)"
        using mem [OF mm] by blast
      have "i \<noteq> i0"
        using i(4) False by auto
      then have "(d, GraceRemoval (Sid i) ''ROOM1'' (crowd_email i) 0) \<noteq> tm"
        using tm by (metis prod.inject socket_id.inject timer_action.inject(3))
      with i(3) have "(d, GraceRemoval (Sid i) ''ROOM1'' (crowd_email i) 0) \<in> set tms"
        by simp
      with i show ?thesis by blast
    qed
    then have "draining tms st"
      using dr shape unfolding draining_def by simp
    then show ?thesis
      using False by (simp add: GraceRemoval i0 grace_removal_def)
  next
    case True
    let ?st' = "grace_removal (Sid i0) ''ROOM1'' (crowd_email i0) 0 st"
    note eff = grace_removal_passes [OF True, of "''ROOM1''" 0]
    have "draining tms ?st'"
      unfolding draining_def
    proof (intro conjI ballI)
      fix m
      assume "m \<in> set (participants (heap ?st' 0))"
      then have m: "m \<in> set (participants (heap st 0))" "m \<noteq> Sid i0"
        by (simp_all add: eff set_delete_def)
      obtain i d where i: "i < 50" "m = Sid i"
        "(d, GraceRemoval (Sid i) ''ROOM1'' (crowd_email i) 0) \<in> set (tm # tms)"
        "userToSocket st (crowd_email i) = Some (Sid i)"
        using mem [OF m(1)] by blast
      have ne: "i \<noteq> i0"
        using i(2) m(2) by auto
      then have "(d, GraceRemoval (Sid i) ''ROOM1'' (crowd_email i) 0) \<noteq> tm"
        using tm by (metis prod.inject socket_id.inject timer_action.inject(3))
      with i(3) have "(d, GraceRemoval (Sid i) ''ROOM1'' (crowd_email i) 0) \<in> set tms"
        by simp
      moreover have "userToSocket ?st' (crowd_email i) = Some (Sid i)"
        using i(4) ne by (simp add: eff crowd_email_inj)
      ultimately show "\<exists>i<50. m = Sid i
          \<and> (\<exists>d. (d, GraceRemoval (Sid i) ''ROOM1'' (crowd_email i) 0) \<in> set tms)
          \<and> userToSocket ?st' (crowd_email i) = Some (Sid i)"
        using i(1,2) by blast
    next
      show "\<forall>d s rc u r. (d, GraceRemoval s rc u r) \<in> set tms \<longrightarrow>
           (\<exists>i<50. s = Sid i \<and> rc = ''ROOM1'' \<and> u = crowd_email i \<and> r = 0)"
        by (rule shape)
      show "participants (heap ?st' 0) = [] \<longrightarrow> \<not> isActive (heap ?st' 0)"
        by (simp add: eff)
      show "socketToUser ?st' (Sid 99) = Some (''z@x.com'', ''ROOM1'')"
        using dr i0(1) by (simp add: eff draining_def)
      show "userToSocket ?st' ''z@x.com'' = Some (Sid 99)"
        using dr crowd_email_not_z [of i0] by (auto simp add: eff draining_def)
      show "userLastActivity ?st' ''z@x.com'' = Some 0"
        using dr crowd_email_not_z [of i0] by (auto simp add: eff draining_def)
      show "Sid 99 \<in> set (sockets ?st')"
        using dr by (simp add: eff draining_def)
      show "rooms ?st' ''ROOM1'' = Some 0"
        using dr by (simp add: eff draining_def)
      show "timers ?st' = []"
        using dr by (simp add: eff draining_def)
      show "date_now ?st' = 5000"
        using dr by (simp add: eff draining_def)
    qed
    then show ?thesis
      by (simp add: GraceRemoval i0)
  qed
qed

lemma draining_fold:
  "draining tms st \<Longrightarrow> draining [] (foldl (\<lambda>s tm. fire (snd tm) s) st tms)"
  by (induction tms arbitrary: st) (simp_all add: draining_step)

lemma crowd_drained:
  assumes cs: "crowd_state 50 50 True st"
  shows "stranded (deliver (5000, CleanupInterval) st)"
proof -
  have due: "filter (\<lambda>tm. fst tm \<le> 5000) (timers st) = timers st"
    using cs by (auto simp add: crowd_state_def filter_id_conv)
  have late: "filter (\<lambda>tm. \<not> fst tm \<le> 5000) (timers st) = []"
    using cs by (auto simp add: crowd_state_def filter_empty_conv)
  let ?st1 = "st\<lparr>timers := [], date_now := 5000\<rparr>"
  let ?tms = "sort_key fst (timers st)"
  have adv: "advance 5000 st = foldl (\<lambda>s tm. fire (snd tm) s) ?st1 ?tms"
    using cs by (simp add: advance_def Let_def due late crowd_state_def)
  have "draining ?tms ?st1"
    unfolding draining_def
  proof (intro conjI ballI)
    fix m
    assume "m \<in> set (participants (heap ?st1 0))"
    then obtain i where i: "i < 50" "m = Sid i"
      using cs by (auto simp add: crowd_state_def)
    have "(5000, GraceRemoval (Sid i) ''ROOM1'' (crowd_email i) 0) \<in> set ?tms"
      using cs i(1) by (simp add: crowd_state_def)
    moreover have "userToSocket ?st1 (crowd_email i) = Some (Sid i)"
      using cs i(1) by (simp add: crowd_state_def)
    ultimately show "\<exists>i<50. m = Sid i
          \<and> (\<exists>d. (d, GraceRemoval (Sid i) ''ROOM1'' (crowd_email i) 0) \<in> set ?tms)
          \<and> userToSocket ?st1 (crowd_email i) = Some (Sid i)"
      using i by blast
  next
    show "\<forall>d s rc u r. (d, GraceRemoval s rc u r) \<in> set ?tms \<longrightarrow>
           (\<exists>i<50. s = Sid i \<and> rc = ''ROOM1'' \<and> u = crowd_email i \<and> r = 0)"
      using cs unfolding crowd_state_def by simp
    show "participants (heap ?st1 0) = [] \<longrightarrow> \<not> isActive (heap ?st1 0)"
      using cs by (simp add: crowd_state_def)
  qed (use cs in \<open>simp_all add: crowd_state_def\<close>)
  then have "draining [] (advance 5000 st)"
    unfolding adv by (rule draining_fold)
  then show ?thesis
    by (simp add: draining_def stranded_def deliver_def handle_def cleanupEmptyRooms_def)
qed

lemma crowd_base: "crowd_state 0 0 False (deliver (0, HttpJoin ''z@x.com'' ''ROOM1'') init_server)"
proof -
  have "advance 0 init_server = init_server"
    by (rule advance_idle) (simp_all add: init_server_def)
  then show ?thesis
    by (simp add: deliver_def handle_def http_join_def get_or_create_def getRoom_def
          createRoom_def Let_def toUpperCase_ROOM1 crowd_state_def init_server_def Room_def)
qed

lemma run_crowd_joins:
  "crowd_state 0 0 False st \<Longrightarrow> n \<le> 50 \<Longrightarrow> crowd_state n 0 False (run (crowd_joins n) st)"
proof (induction n)
  case 0
  then show ?case by (simp add: crowd_joins_def run_def)
next
  case (Suc n)
  let ?st = "run (crowd_joins n) st"
  have cs: "crowd_state n 0 False ?st"
    using Suc by simp
  have split: "run (crowd_joins (Suc n)) st
      = deliver (0, JoinRoom (Sid n) ''ROOM1'' (crowd_email n)) (deliver (0, Connect (Sid n)) ?st)"
    by (simp add: crowd_joins_def run_def)
  have "crowd_state n 0 False (deliver (0, Connect (Sid n)) ?st)"
    and "Sid n \<in> set (sockets (deliver (0, Connect (Sid n)) ?st))"
    using cs by (rule crowd_connect)+
  then show ?case
    unfolding split using Suc.prems(2) by (intro crowd_join) simp_all
qed

lemma run_crowd_leaves:
  "crowd_state 50 0 True st \<Longrightarrow> n \<le> 50 \<Longrightarrow> crowd_state 50 n True (run (crowd_leaves n) st)"
proof (induction n)
  case 0
  then show ?case by (simp add: crowd_leaves_def run_def)
next
  case (Suc n)
  have cs: "crowd_state 50 n True (run (crowd_leaves n) st)"
    using Suc by simp
  have split: "run (crowd_leaves (Suc n)) st
      = deliver (0, Disconnect (Sid n)) (run (crowd_leaves n) st)"
    by (simp add: crowd_leaves_def run_def)
  show ?case
    unfolding split using cs Suc.prems(2) by (intro crowd_leave) simp_all
qed

lemma stranded_reached: "stranded (run stranded_trace init_server)"
proof -
  let ?a = "deliver (0, HttpJoin ''z@x.com'' ''ROOM1'') init_server"
  let ?b = "run (crowd_joins 50) ?a"
  let ?c = "deliver (0, JoinRoom (Sid 99) ''ROOM1'' ''z@x.com'') (deliver (0, Connect (Sid 99)) ?b)"
  let ?d = "run (crowd_leaves 50) ?c"
  have eq: "run stranded_trace init_server = deliver (5000, CleanupInterval) ?d"
    by (simp add: stranded_trace_def run_def)
  have b: "crowd_state 50 0 False ?b"
    using crowd_base by (rule run_crowd_joins) simp
  have "crowd_state 50 0 False (deliver (0, Connect (Sid 99)) ?b)"
    and "Sid 99 \<in> set (sockets (deliver (0, Connect (Sid 99)) ?b))"
    using b by (rule crowd_connect)+
  then have "crowd_state 50 0 True ?c"
    by (rule crowd_reject)
  then have "crowd_state 50 50 True ?d"
    by (rule run_crowd_leaves) simp
  then show ?thesis
    unfolding eq by (rule crowd_drained)
qed

lemma stranded_disconnect:
  assumes "stranded st"
  shows "Sid 99 \<notin> set (sockets (run [(6000, Disconnect (Sid 99)), (20000, CleanupInterval)] st))"
    and "date_now (run [(6000, Disconnect (Sid 99)), (20000, CleanupInterval)] st) = 20000"
    and "userToSocket (run [(6000, Disconnect (Sid 99)), (20000, CleanupInterval)] st) ''z@x.com''
           = Some (Sid 99)"
    and "socketToUser (run [(6000, Disconnect (Sid 99)), (20000, CleanupInterval)] st) (Sid 99)
           = Some (''z@x.com'', ''ROOM1'')"
    and "userLastActivity (run [(6000, Disconnect (Sid 99)), (20000, CleanupInterval)] st)
           ''z@x.com'' = Some 0"
    and "timers (run [(6000, Disconnect (Sid 99)), (20000, CleanupInterval)] st) = []"
    and "outbox (run [(6000, Disconnect (Sid 99)), (20000, CleanupInterval)] st) = outbox st"
proof -
  let ?st1 = "st\<lparr>timers := [], date_now := 6000\<rparr>"
  have adv: "advance 6000 st = ?st1"
    using assms by (simp add: advance_def Let_def stranded_def)
  have live: "Sid 99 \<in> set (sockets ?st1)"
    using assms by (simp add: stranded_def)
  have bound: "socketToUser ?st1 (Sid 99) = Some (''z@x.com'', ''ROOM1'')"
    using assms by (simp add: stranded_def)
  have gone: "rooms ?st1 (toUpperCase ''ROOM1'') = None"
    using assms by (simp add: stranded_def toUpperCase_ROOM1)
  let ?st2 = "?st1\<lparr>sockets := set_delete (Sid 99) (sockets ?st1),
                    joined := filter (\<lambda>(x, c). x \<noteq> Sid 99) (joined ?st1)\<rparr>"
  have one: "deliver (6000, Disconnect (Sid 99)) st = ?st2"
    using live close_socket_stranded [OF live bound gone]
    by (simp add: deliver_def handle_def adv)
  have two: "deliver (20000, CleanupInterval) ?st2
      = cleanupEmptyRooms (?st2\<lparr>timers := [], date_now := 20000\<rparr>)"
    by (simp add: deliver_def handle_def advance_def Let_def)
  have eq: "run [(6000, Disconnect (Sid 99)), (20000, CleanupInterval)] st
      = cleanupEmptyRooms (?st2\<lparr>timers := [], date_now := 20000\<rparr>)"
    by (simp only: run_def foldl_Cons foldl_Nil one two)
  show "Sid 99 \<notin> set (sockets (run [(6000, Disconnect (Sid 99)), (20000, CleanupInterval)] st))"
    unfolding eq by (simp add: cleanupEmptyRooms_def set_delete_def)
  show "date_now (run [(6000, Disconnect (Sid 99)), (20000, CleanupInterval)] st) = 20000"
    unfolding eq by (simp add: cleanupEmptyRooms_def)
  show "userToSocket (run [(6000, Disconnect (Sid 99)), (20000, CleanupInterval)] st) ''z@x.com''
           = Some (Sid 99)"
    unfolding eq using assms by (simp add: cleanupEmptyRooms_def stranded_def)
  show "socketToUser (run [(6000, Disconnect (Sid 99)), (20000, CleanupInterval)] st) (Sid 99)
           = Some (''z@x.com'', ''ROOM1'')"
    unfolding eq using assms by (simp add: cleanupEmptyRooms_def stranded_def)
  show "userLastActivity (run [(6000, Disconnect (Sid 99)), (20000, CleanupInterval)] st)
           ''z@x.com'' = Some 0"
    unfolding eq using assms by (simp add: cleanupEmptyRooms_def stranded_def)
  show "timers (run [(6000, Disconnect (Sid 99)), (20000, CleanupInterval)] st) = []"
    unfolding eq by (simp add: cleanupEmptyRooms_def)
  show "outbox (run [(6000, Disconnect (Sid 99)), (20000, CleanupInterval)] st) = outbox st"
    unfolding eq by (simp add: cleanupEmptyRooms_def)
qed


text \<open>
  Claim C4 as the claim states it fails. At the end of the run above socket 99 is
  connected and bound to \<open>z@x.com\<close> with room code ROOM1, and the room is no longer
  registered. The socket disconnects at 6000. At 20000, long after the five seconds,
  the identity still resolves to socket 99, yet both mapping entries and the activity
  timestamp are still there, no timer was ever set, and nothing was emitted.
\<close>

theorem stranded_binding_counterexample:
  "Sid 99 \<in> set (sockets (run stranded_trace init_server))
   \<and> socketToUser (run stranded_trace init_server) (Sid 99) = Some (''z@x.com'', ''ROOM1'')
   \<and> userToSocket (run stranded_trace init_server) ''z@x.com'' = Some (Sid 99)
   \<and> date_now (run stranded_trace init_server) = 5000
   \<and> Sid 99 \<notin> set (sockets (run (stranded_trace
         @ [(6000, Disconnect (Sid 99)), (20000, CleanupInterval)]) init_server))
   \<and> date_now (run (stranded_trace
         @ [(6000, Disconnect (Sid 99)), (20000, CleanupInterval)]) init_server) = 20000
   \<and> userToSocket (run (stranded_trace
         @ [(6000, Disconnect (Sid 99)), (20000, CleanupInterval)]) init_server) ''z@x.com''
       = Some (Sid 99)
   \<and> socketToUser (run (stranded_trace
         @ [(6000, Disconnect (Sid 99)), (20000, CleanupInterval)]) init_server) (Sid 99)
       = Some (''z@x.com'', ''ROOM1'')
   \<and> userLastActivity (run (stranded_trace
         @ [(6000, Disconnect (Sid 99)), (20000, CleanupInterval)]) init_server) ''z@x.com''
       = Some 0
   \<and> timers (run (stranded_trace
         @ [(6000, Disconnect (Sid 99)), (20000, CleanupInterval)]) init_server) = []
   \<and> outbox (run (stranded_trace
         @ [(6000, Disconnect (Sid 99)), (20000, CleanupInterval)]) init_server)
       = outbox (run stranded_trace init_server)"
proof -
  have s: "stranded (run stranded_trace init_server)"
    by (rule stranded_reached)
  have app: "run (stranded_trace @ [(6000, Disconnect (Sid 99)), (20000, CleanupInterval)])
               init_server
      = run [(6000, Disconnect (Sid 99)), (20000, CleanupInterval)]
          (run stranded_trace init_server)"
    by (simp add: run_def)
  show ?thesis
    unfolding app
    using s stranded_disconnect [OF s]
    by (simp add: stranded_def)
qed

lemma due_timer_fires:
  assumes "(d, a) \<in> set (timers st)" "d \<le> max (date_now st) t"
  shows "\<exists>before after.
      sort_key fst (filter (\<lambda>tm. fst tm \<le> max (date_now st) t) (timers st))
        = before @ (d, a) # after
    \<and> advance t st
        = foldl (\<lambda>s tm. fire (snd tm) s)
            (fire a (foldl (\<lambda>s tm. fire (snd tm) s)
               (st\<lparr>timers := filter (\<lambda>tm. \<not> fst tm \<le> max (date_now st) t) (timers st),
                   date_now := max (date_now st) t\<rparr>) before)) after"
proof -
  have "(d, a) \<in> set (sort_key fst (filter (\<lambda>tm. fst tm \<le> max (date_now st) t) (timers st)))"
    using assms by simp
  then obtain before after where
    sp: "sort_key fst (filter (\<lambda>tm. fst tm \<le> max (date_now st) t) (timers st))
           = before @ (d, a) # after"
    by (meson split_list)
  have "advance t st
        = foldl (\<lambda>s tm. fire (snd tm) s)
            (fire a (foldl (\<lambda>s tm. fire (snd tm) s)
               (st\<lparr>timers := filter (\<lambda>tm. \<not> fst tm \<le> max (date_now st) t) (timers st),
                   date_now := max (date_now st) t\<rparr>) before)) after"
    unfolding advance_def Let_def sp by simp
  with sp show ?thesis
    by blast
qed

text \<open>
  Claim C4, amended. When a bound socket disconnects while the room its binding names
  is registered, the handler sets one timer, due 5000 ms ahead, and does nothing else.
  Every pending timer fires, in the order of the due times, once the clock has reached
  its due time. When the removal check fires in a state where the identity still
  resolves to the socket, the socket is taken out of the room and out of the
  participants registry, "user-left" goes to the others in the room,
  "participants-update" goes to the room with the remaining count and roster, and the
  two mapping entries and the activity timestamp are deleted.
\<close>

theorem grace_removal_finalizes:
  "(socketToUser st sock = Some (userEmail, roomCode) \<and> getRoom roomCode st = Some room \<longrightarrow>
      on_disconnect sock st
        = st\<lparr>timers := timers st @
               [(date_now st + 5000, GraceRemoval sock roomCode userEmail room)]\<rparr>)
   \<and> ((d, a) \<in> set (timers st'') \<and> d \<le> max (date_now st'') t \<longrightarrow>
        (\<exists>before after.
           sort_key fst (filter (\<lambda>tm. fst tm \<le> max (date_now st'') t) (timers st''))
             = before @ (d, a) # after
         \<and> advance t st''
             = foldl (\<lambda>s tm. fire (snd tm) s)
                 (fire a (foldl (\<lambda>s tm. fire (snd tm) s)
                    (st''\<lparr>timers := filter (\<lambda>tm. \<not> fst tm \<le> max (date_now st'') t)
                                     (timers st''),
                         date_now := max (date_now st'') t\<rparr>) before)) after))
   \<and> (userToSocket st' userEmail = Some sock \<longrightarrow>
        participants (heap (fire (GraceRemoval sock roomCode userEmail room) st') room)
          = set_delete sock (participants (heap st' room))
      \<and> sock \<notin> set (participants
                       (heap (fire (GraceRemoval sock roomCode userEmail room) st') room))
      \<and> all_participants (fire (GraceRemoval sock roomCode userEmail room) st') sock = None
      \<and> outbox (fire (GraceRemoval sock roomCode userEmail room) st')
          = outbox st' @
            [(SocketTo sock (RoomChannel roomCode), UserLeftEv sock userEmail),
             (IoTo (RoomChannel roomCode),
              ParticipantsUpdateEv
                (length (participants
                   (heap (fire (GraceRemoval sock roomCode userEmail room) st') room)))
                (roster room (fire (GraceRemoval sock roomCode userEmail room) st')))]
      \<and> socketToUser (fire (GraceRemoval sock roomCode userEmail room) st') sock = None
      \<and> userToSocket (fire (GraceRemoval sock roomCode userEmail room) st') userEmail = None
      \<and> userLastActivity (fire (GraceRemoval sock roomCode userEmail room) st') userEmail
          = None)"
proof (intro conjI)
  show "socketToUser st sock = Some (userEmail, roomCode) \<and> getRoom roomCode st = Some room \<longrightarrow>
      on_disconnect sock st
        = st\<lparr>timers := timers st @
               [(date_now st + 5000, GraceRemoval sock roomCode userEmail room)]\<rparr>"
    by (simp add: on_disconnect_def setTimeout_def)
  show "(d, a) \<in> set (timers st'') \<and> d \<le> max (date_now st'') t \<longrightarrow>
        (\<exists>before after.
           sort_key fst (filter (\<lambda>tm. fst tm \<le> max (date_now st'') t) (timers st''))
             = before @ (d, a) # after
         \<and> advance t st''
             = foldl (\<lambda>s tm. fire (snd tm) s)
                 (fire a (foldl (\<lambda>s tm. fire (snd tm) s)
                    (st''\<lparr>timers := filter (\<lambda>tm. \<not> fst tm \<le> max (date_now st'') t)
                                     (timers st''),
                         date_now := max (date_now st'') t\<rparr>) before)) after)"
    using due_timer_fires [of d a st'' t] by blast
  show "userToSocket st' userEmail = Some sock \<longrightarrow>
        participants (heap (fire (GraceRemoval sock roomCode userEmail room) st') room)
          = set_delete sock (participants (heap st' room))
      \<and> sock \<notin> set (participants
                       (heap (fire (GraceRemoval sock roomCode userEmail room) st') room))
      \<and> all_participants (fire (GraceRemoval sock roomCode userEmail room) st') sock = None
      \<and> outbox (fire (GraceRemoval sock roomCode userEmail room) st')
          = outbox st' @
            [(SocketTo sock (RoomChannel roomCode), UserLeftEv sock userEmail),
             (IoTo (RoomChannel roomCode),
              ParticipantsUpdateEv
                (length (participants
                   (heap (fire (GraceRemoval sock roomCode userEmail room) st') room)))
                (roster room (fire (GraceRemoval sock roomCode userEmail room) st')))]
      \<and> socketToUser (fire (GraceRemoval sock roomCode userEmail room) st') sock = None
      \<and> userToSocket (fire (GraceRemoval sock roomCode userEmail room) st') userEmail = None
      \<and> userLastActivity (fire (GraceRemoval sock roomCode userEmail room) st') userEmail
          = None"
    by (auto simp add: grace_removal_def room_removeParticipant_def removeParticipant_def
          emit_def roster_def Let_def set_delete_def)
qed

theorem grace_removal_finalizes_witness:
  "socketToUser st_joined (Sid 1) = Some (''a@x.com'', ''ABC123'')
   \<and> getRoom ''ABC123'' st_joined = Some 0
   \<and> timers (on_disconnect (Sid 1) st_joined)
       = timers st_joined @ [(5000, GraceRemoval (Sid 1) ''ABC123'' ''a@x.com'' 0)]
   \<and> (15000, GraceRemoval (Sid 1) ''ABC123'' ''a@x.com'' 0) \<in> set (timers st_dropped)
   \<and> (15000::nat) \<le> max (date_now st_dropped) 15000
   \<and> advance 15000 st_dropped
       = fire (GraceRemoval (Sid 1) ''ABC123'' ''a@x.com'' 0)
           (st_dropped\<lparr>timers := [], date_now := 15000\<rparr>)
   \<and> userToSocket (st_dropped\<lparr>timers := [], date_now := 15000\<rparr>) ''a@x.com'' = Some (Sid 1)
   \<and> participants (heap (advance 15000 st_dropped) 0) = []
   \<and> outbox (advance 15000 st_dropped)
       = outbox st_dropped @
         [(SocketTo (Sid 1) (RoomChannel ''ABC123''), UserLeftEv (Sid 1) ''a@x.com''),
          (IoTo (RoomChannel ''ABC123''), ParticipantsUpdateEv 0 [])]
   \<and> userToSocket (advance 15000 st_dropped) ''a@x.com'' = None
   \<and> socketToUser (advance 15000 st_dropped) (Sid 1) = None
   \<and> userLastActivity (advance 15000 st_dropped) ''a@x.com'' = None"
proof -
  have h1: "socketToUser st_joined (Sid 1) = Some (''a@x.com'', ''ABC123'')
            \<and> getRoom ''ABC123'' st_joined = Some 0"
    by (simp add: st_joined_def getRoom_def toUpperCase_ABC123)
  have h2: "(15000, GraceRemoval (Sid 1) ''ABC123'' ''a@x.com'' 0) \<in> set (timers st_dropped)
            \<and> (15000::nat) \<le> max (date_now st_dropped) 15000"
    by (simp add: st_dropped_def)
  have h3: "userToSocket (st_dropped\<lparr>timers := [], date_now := 15000\<rparr>) ''a@x.com''
              = Some (Sid 1)"
    by (simp add: st_dropped_def st_joined_def)
  have adv: "advance 15000 st_dropped
       = fire (GraceRemoval (Sid 1) ''ABC123'' ''a@x.com'' 0)
           (st_dropped\<lparr>timers := [], date_now := 15000\<rparr>)"
    by (simp add: advance_def Let_def st_dropped_def st_joined_def)
  note inst = grace_removal_finalizes
      [where st = st_joined and sock = "Sid 1" and userEmail = "''a@x.com''"
         and roomCode = "''ABC123''" and room = 0
         and st' = "st_dropped\<lparr>timers := [], date_now := 15000\<rparr>"
         and st'' = st_dropped and t = 15000 and d = 15000
         and a = "GraceRemoval (Sid 1) ''ABC123'' ''a@x.com'' 0"]
  have c1: "timers (on_disconnect (Sid 1) st_joined)
       = timers st_joined @ [(5000, GraceRemoval (Sid 1) ''ABC123'' ''a@x.com'' 0)]"
    using h1 inst by (simp add: st_joined_def)
  show ?thesis
    unfolding adv
    using h1 h2 h3 c1 inst
    by (simp add: st_dropped_def st_joined_def roster_def set_delete_def Room_def)
qed

end
